theory Spec2Isabelle
  imports Main
begin

section \<open>Formulas\<close>

text \<open>
  A \<open>Formula\<close> object of \<open>propositions.syntax\<close> carries a string \<open>root\<close> and, depending
  on how it was constructed, no operand, one operand (\<open>first\<close>) or two operands
  (\<open>first\<close>, \<open>second\<close>).  The call \<open>Formula(r)\<close> is \<open>Leaf r\<close>, \<open>Formula(r, a)\<close> is
  \<open>Unary r a\<close> and \<open>Formula(r, a, b)\<close> is \<open>Binary r a b\<close>.  The root is kept as a
  string, as in the program, so that a tag outside the grammar can be written down.
  The checks that the constructor of \<open>Formula\<close> makes on its arguments are not part of
  the sources at hand and are not modelled; the predicate \<open>well_formed\<close> below says
  which trees belong to the grammar.
\<close>

datatype formula =
    Leaf string
  | Unary string formula
  | Binary string formula formula

text \<open>
  The two ways a converter can raise: the explicit \<open>ValueError\<close> of its last line, and
  the \<open>AttributeError\<close> of reading \<open>first\<close> or \<open>second\<close> on a node that has no such
  operand.
\<close>

datatype error =
    ValueError string
  | AttributeError

fun root :: "formula \<Rightarrow> string" where
  "root (Leaf r) = r"
| "root (Unary r a) = r"
| "root (Binary r a b) = r"

text \<open>
  Modelled from the spec: the recognisers \<open>is_constant\<close>, \<open>is_unary\<close> and \<open>is_binary\<close>
  of \<open>propositions.syntax\<close> are not part of the sources at hand.  Section 3 of the
  specification fixes the constants as \<open>T\<close> and \<open>F\<close>, the unary operator as \<open>~\<close> and
  the binary operators as \<open>&\<close>, \<open>|\<close>, \<open>->\<close>, \<open>+\<close>, \<open><->\<close>, \<open>-&\<close>, \<open>-|\<close>.
\<close>

definition is_constant :: "string \<Rightarrow> bool" where
  "is_constant s = (s = ''T'' \<or> s = ''F'')"

definition is_unary :: "string \<Rightarrow> bool" where
  "is_unary s = (s = ''~'')"

definition binary_operators :: "string list" where
  "binary_operators = [''&'', ''|'', ''->'', ''+'', ''<->'', ''-&'', ''-|'']"

definition is_binary :: "string \<Rightarrow> bool" where
  "is_binary s = (s \<in> set binary_operators)"

text \<open>
  The recogniser \<open>is_variable\<close> of \<open>propositions.syntax\<close> is not part of the sources
  either, and the specification does not say which names are variable names.  It is
  therefore a parameter \<open>isv\<close> of everything below.  What is assumed of it is only that
  the helper name \<open>p\<close> is a variable name and that no constant or operator tag is one.
\<close>

definition reserved_tags :: "string list" where
  "reserved_tags = ''T'' # ''F'' # ''~'' # binary_operators"

definition names_ok :: "(string \<Rightarrow> bool) \<Rightarrow> bool" where
  "names_ok isv = (isv ''p'' \<and> (\<forall>r \<in> set reserved_tags. \<not> isv r))"

text \<open>
  A well-formed formula: every leaf is a variable or a constant, every node with one
  operand has root \<open>~\<close>, every node with two operands has a binary operator as root.
\<close>

fun well_formed :: "(string \<Rightarrow> bool) \<Rightarrow> formula \<Rightarrow> bool" where
  "well_formed isv (Leaf r) = (isv r \<or> is_constant r)"
| "well_formed isv (Unary r a) = (is_unary r \<and> well_formed isv a)"
| "well_formed isv (Binary r a b) = (is_binary r \<and> well_formed isv a \<and> well_formed isv b)"

text \<open>The variable names occurring in a formula.\<close>

fun variables :: "(string \<Rightarrow> bool) \<Rightarrow> formula \<Rightarrow> string set" where
  "variables isv (Leaf r) = (if isv r then {r} else {})"
| "variables isv (Unary r a) = variables isv a"
| "variables isv (Binary r a b) = variables isv a \<union> variables isv b"

text \<open>The operator and constant tags occurring in a formula.\<close>

fun operators :: "(string \<Rightarrow> bool) \<Rightarrow> formula \<Rightarrow> string set" where
  "operators isv (Leaf r) = (if isv r then {} else {r})"
| "operators isv (Unary r a) = insert r (operators isv a)"
| "operators isv (Binary r a b) = insert r (operators isv a \<union> operators isv b)"

text \<open>A formula without constant leaves.\<close>

fun constant_free :: "(string \<Rightarrow> bool) \<Rightarrow> formula \<Rightarrow> bool" where
  "constant_free isv (Leaf r) = isv r"
| "constant_free isv (Unary r a) = constant_free isv a"
| "constant_free isv (Binary r a b) = (constant_free isv a \<and> constant_free isv b)"

section \<open>Evaluation\<close>

text \<open>
  Modelled from the spec: \<open>evaluate\<close> of \<open>propositions.semantics\<close> is not part of the
  sources at hand.  An assignment is a dictionary from variable names to truth values;
  the operators have their usual truth tables (section 3 and the glossary: \<open>+\<close> is
  exclusive or, \<open>-&\<close> the negated conjunction, \<open>-|\<close> the negated disjunction).  The
  result is \<open>None\<close> when a variable is not assigned or a node is not of the grammar.
\<close>

definition binary_truth :: "string \<Rightarrow> bool \<Rightarrow> bool \<Rightarrow> bool option" where
  "binary_truth r x y =
     (if r = ''&'' then Some (x \<and> y)
      else if r = ''|'' then Some (x \<or> y)
      else if r = ''->'' then Some (x \<longrightarrow> y)
      else if r = ''+'' then Some (x \<noteq> y)
      else if r = ''<->'' then Some (x = y)
      else if r = ''-&'' then Some (\<not> (x \<and> y))
      else if r = ''-|'' then Some (\<not> (x \<or> y))
      else None)"

fun evaluate :: "(string \<Rightarrow> bool) \<Rightarrow> (string \<rightharpoonup> bool) \<Rightarrow> formula \<Rightarrow> bool option" where
  "evaluate isv m (Leaf r) =
     (if isv r then m r
      else if is_constant r then Some (r = ''T'')
      else None)"
| "evaluate isv m (Unary r a) =
     (if is_unary r then
        (case evaluate isv m a of None \<Rightarrow> None | Some x \<Rightarrow> Some (\<not> x))
      else None)"
| "evaluate isv m (Binary r a b) =
     (case evaluate isv m a of
        None \<Rightarrow> None
      | Some x \<Rightarrow>
          (case evaluate isv m b of
             None \<Rightarrow> None
           | Some y \<Rightarrow> binary_truth r x y))"

section \<open>The converters of \<open>propositions/operators.py\<close>\<close>

text \<open>
  Each converter is written once per arity of the node it receives; the tests on the
  root come in the order of the program.  Reading \<open>formula.first\<close> on a leaf, or
  \<open>formula.second\<close> on a node with one operand, is the \<open>AttributeError\<close>.
\<close>

fun to_not_and_or :: "(string \<Rightarrow> bool) \<Rightarrow> formula \<Rightarrow> error + formula" where
  "to_not_and_or isv (Leaf r) =
     (if isv r then Inr (Leaf r)
      else if is_constant r then
        (let p = Leaf ''p'' in
         if r = ''T'' then Inr (Binary ''|'' p (Unary ''~'' p))
         else Inr (Binary ''&'' p (Unary ''~'' p)))
      else Inl AttributeError)"
| "to_not_and_or isv (Unary r a) =
     (if isv r then Inr (Unary r a)
      else if is_constant r then
        (let p = Leaf ''p'' in
         if r = ''T'' then Inr (Binary ''|'' p (Unary ''~'' p))
         else Inr (Binary ''&'' p (Unary ''~'' p)))
      else if is_unary r then
        (case to_not_and_or isv a of
           Inl e \<Rightarrow> Inl e
         | Inr x \<Rightarrow> Inr (Unary ''~'' x))
      else
        (case to_not_and_or isv a of
           Inl e \<Rightarrow> Inl e
         | Inr first \<Rightarrow> Inl AttributeError))"
| "to_not_and_or isv (Binary r a b) =
     (if isv r then Inr (Binary r a b)
      else if is_constant r then
        (let p = Leaf ''p'' in
         if r = ''T'' then Inr (Binary ''|'' p (Unary ''~'' p))
         else Inr (Binary ''&'' p (Unary ''~'' p)))
      else if is_unary r then
        (case to_not_and_or isv a of
           Inl e \<Rightarrow> Inl e
         | Inr x \<Rightarrow> Inr (Unary ''~'' x))
      else
        (case to_not_and_or isv a of
           Inl e \<Rightarrow> Inl e
         | Inr first \<Rightarrow>
             (case to_not_and_or isv b of
                Inl e \<Rightarrow> Inl e
              | Inr second \<Rightarrow>
                  if r = ''&'' then Inr (Binary ''&'' first second)
                  else if r = ''|'' then Inr (Binary ''|'' first second)
                  else if r = ''->'' then Inr (Binary ''|'' (Unary ''~'' first) second)
                  else if r = ''+'' then
                    Inr (Binary ''|''
                           (Binary ''&'' first (Unary ''~'' second))
                           (Binary ''&'' (Unary ''~'' first) second))
                  else if r = ''<->'' then
                    Inr (Binary ''|''
                           (Binary ''&'' first second)
                           (Binary ''&'' (Unary ''~'' first) (Unary ''~'' second)))
                  else if r = ''-&'' then Inr (Unary ''~'' (Binary ''&'' first second))
                  else if r = ''-|'' then Inr (Unary ''~'' (Binary ''|'' first second))
                  else Inl (ValueError (''Unknown operator: '' @ r)))))"

text \<open>
  In \<open>to_not_and\<close> the case \<open><->\<close> calls the converter again on the formula
  \<open>Formula('+', formula.first, formula.second)\<close>, which is as large as the node itself;
  the recursion ends because that formula has root \<open>+\<close>.
\<close>

function to_not_and :: "(string \<Rightarrow> bool) \<Rightarrow> formula \<Rightarrow> error + formula" where
  "to_not_and isv (Leaf r) =
     (if isv r then Inr (Leaf r)
      else if is_constant r then
        (let p = Leaf ''p'';
             contradiction = Binary ''&'' p (Unary ''~'' p) in
         if r = ''F'' then Inr contradiction
         else Inr (Unary ''~'' contradiction))
      else Inl AttributeError)"
| "to_not_and isv (Unary r a) =
     (if isv r then Inr (Unary r a)
      else if is_constant r then
        (let p = Leaf ''p'';
             contradiction = Binary ''&'' p (Unary ''~'' p) in
         if r = ''F'' then Inr contradiction
         else Inr (Unary ''~'' contradiction))
      else if is_unary r then
        (case to_not_and isv a of
           Inl e \<Rightarrow> Inl e
         | Inr x \<Rightarrow> Inr (Unary ''~'' x))
      else
        (case to_not_and isv a of
           Inl e \<Rightarrow> Inl e
         | Inr first \<Rightarrow> Inl AttributeError))"
| "to_not_and isv (Binary r a b) =
     (if isv r then Inr (Binary r a b)
      else if is_constant r then
        (let p = Leaf ''p'';
             contradiction = Binary ''&'' p (Unary ''~'' p) in
         if r = ''F'' then Inr contradiction
         else Inr (Unary ''~'' contradiction))
      else if is_unary r then
        (case to_not_and isv a of
           Inl e \<Rightarrow> Inl e
         | Inr x \<Rightarrow> Inr (Unary ''~'' x))
      else
        (case to_not_and isv a of
           Inl e \<Rightarrow> Inl e
         | Inr first \<Rightarrow>
             (case to_not_and isv b of
                Inl e \<Rightarrow> Inl e
              | Inr second \<Rightarrow>
                  if r = ''&'' then Inr (Binary ''&'' first second)
                  else if r = ''|'' then
                    Inr (Unary ''~'' (Binary ''&'' (Unary ''~'' first) (Unary ''~'' second)))
                  else if r = ''->'' then
                    Inr (Unary ''~'' (Binary ''&'' first (Unary ''~'' second)))
                  else if r = ''+'' then
                    (let left = Binary ''&'' first (Unary ''~'' second);
                         right = Binary ''&'' (Unary ''~'' first) second in
                     Inr (Unary ''~'' (Binary ''&'' (Unary ''~'' left) (Unary ''~'' right))))
                  else if r = ''<->'' then
                    (case to_not_and isv (Binary ''+'' a b) of
                       Inl e \<Rightarrow> Inl e
                     | Inr xor' \<Rightarrow> Inr (Unary ''~'' xor'))
                  else if r = ''-&'' then Inr (Unary ''~'' (Binary ''&'' first second))
                  else if r = ''-|'' then
                    Inr (Binary ''&'' (Unary ''~'' first) (Unary ''~'' second))
                  else Inl (ValueError (''Unknown operator: '' @ r)))))"
  by pat_completeness auto

termination
  by (relation "measure (\<lambda>(isv, f). 2 * size f + (if root f = ''<->'' then 1 else 0))")
     auto

text \<open>The inner function \<open>convert\<close> of \<open>to_nand\<close>, and \<open>to_nand\<close> itself.\<close>

fun convert :: "(string \<Rightarrow> bool) \<Rightarrow> formula \<Rightarrow> error + formula" where
  "convert isv (Leaf r) =
     (if isv r then Inr (Leaf r)
      else Inl AttributeError)"
| "convert isv (Unary r a) =
     (if isv r then Inr (Unary r a)
      else if is_unary r then
        (case convert isv a of
           Inl e \<Rightarrow> Inl e
         | Inr inner \<Rightarrow> Inr (Binary ''-&'' inner inner))
      else
        (case convert isv a of
           Inl e \<Rightarrow> Inl e
         | Inr first \<Rightarrow> Inl AttributeError))"
| "convert isv (Binary r a b) =
     (if isv r then Inr (Binary r a b)
      else if is_unary r then
        (case convert isv a of
           Inl e \<Rightarrow> Inl e
         | Inr inner \<Rightarrow> Inr (Binary ''-&'' inner inner))
      else
        (case convert isv a of
           Inl e \<Rightarrow> Inl e
         | Inr first \<Rightarrow>
             (case convert isv b of
                Inl e \<Rightarrow> Inl e
              | Inr second \<Rightarrow>
                  (let nand = Binary ''-&'' first second in
                   Inr (Binary ''-&'' nand nand)))))"

definition to_nand :: "(string \<Rightarrow> bool) \<Rightarrow> formula \<Rightarrow> error + formula" where
  "to_nand isv formula =
     (case to_not_and isv formula of
        Inl e \<Rightarrow> Inl e
      | Inr not_and \<Rightarrow> convert isv not_and)"

text \<open>The builders \<open>imp\<close> and \<open>neg\<close> of \<open>to_implies_not\<close>, and the converter.\<close>

definition imp :: "formula \<Rightarrow> formula \<Rightarrow> formula" where
  "imp a b = Binary ''->'' a b"

definition neg :: "formula \<Rightarrow> formula" where
  "neg a = Unary ''~'' a"

fun to_implies_not :: "(string \<Rightarrow> bool) \<Rightarrow> formula \<Rightarrow> error + formula" where
  "to_implies_not isv (Leaf r) =
     (if isv r then Inr (Leaf r)
      else if is_constant r then
        (let p = Leaf ''p'';
             t = imp p p in
         if r = ''T'' then Inr t
         else Inr (neg t))
      else Inl AttributeError)"
| "to_implies_not isv (Unary r a) =
     (if isv r then Inr (Unary r a)
      else if is_constant r then
        (let p = Leaf ''p'';
             t = imp p p in
         if r = ''T'' then Inr t
         else Inr (neg t))
      else if is_unary r then
        (case to_implies_not isv a of
           Inl e \<Rightarrow> Inl e
         | Inr x \<Rightarrow> Inr (neg x))
      else
        (case to_implies_not isv a of
           Inl e \<Rightarrow> Inl e
         | Inr first \<Rightarrow> Inl AttributeError))"
| "to_implies_not isv (Binary r a b) =
     (if isv r then Inr (Binary r a b)
      else if is_constant r then
        (let p = Leaf ''p'';
             t = imp p p in
         if r = ''T'' then Inr t
         else Inr (neg t))
      else if is_unary r then
        (case to_implies_not isv a of
           Inl e \<Rightarrow> Inl e
         | Inr x \<Rightarrow> Inr (neg x))
      else
        (case to_implies_not isv a of
           Inl e \<Rightarrow> Inl e
         | Inr first \<Rightarrow>
             (case to_implies_not isv b of
                Inl e \<Rightarrow> Inl e
              | Inr second \<Rightarrow>
                  if r = ''->'' then Inr (imp first second)
                  else if r = ''|'' then Inr (imp (neg first) second)
                  else if r = ''&'' then Inr (neg (imp first (neg second)))
                  else if r = ''+'' then
                    Inr (imp (imp first second) (neg (imp second first)))
                  else if r = ''<->'' then
                    Inr (neg (imp (imp first second) (neg (imp second first))))
                  else if r = ''-&'' then Inr (imp first (neg second))
                  else if r = ''-|'' then Inr (neg (imp (neg first) second))
                  else Inl (ValueError (''Unknown operator: '' @ r)))))"

text \<open>The inner function \<open>eliminate\<close> of \<open>to_implies_false\<close>, and \<open>to_implies_false\<close>.\<close>

fun eliminate :: "(string \<Rightarrow> bool) \<Rightarrow> formula \<Rightarrow> error + formula" where
  "eliminate isv (Leaf r) =
     (if isv r then Inr (Leaf r)
      else Inl AttributeError)"
| "eliminate isv (Unary r a) =
     (if isv r then Inr (Unary r a)
      else if is_unary r then
        (case eliminate isv a of
           Inl e \<Rightarrow> Inl e
         | Inr x \<Rightarrow> Inr (Binary ''->'' x (Leaf ''F'')))
      else
        (case eliminate isv a of
           Inl e \<Rightarrow> Inl e
         | Inr x \<Rightarrow> Inl AttributeError))"
| "eliminate isv (Binary r a b) =
     (if isv r then Inr (Binary r a b)
      else if is_unary r then
        (case eliminate isv a of
           Inl e \<Rightarrow> Inl e
         | Inr x \<Rightarrow> Inr (Binary ''->'' x (Leaf ''F'')))
      else
        (case eliminate isv a of
           Inl e \<Rightarrow> Inl e
         | Inr x \<Rightarrow>
             (case eliminate isv b of
                Inl e \<Rightarrow> Inl e
              | Inr y \<Rightarrow> Inr (Binary ''->'' x y))))"

definition to_implies_false :: "(string \<Rightarrow> bool) \<Rightarrow> formula \<Rightarrow> error + formula" where
  "to_implies_false isv formula =
     (case to_implies_not isv formula of
        Inl e \<Rightarrow> Inl e
      | Inr implies_not \<Rightarrow> eliminate isv implies_not)"


text \<open>A small set of variable names, for concrete instances.\<close>

definition sample_names :: "string \<Rightarrow> bool" where
  "sample_names s = (s \<in> set [''p'', ''q'', ''x'', ''y'', ''z''])"

section \<open>Names and tags\<close>

lemma names_ok_p: "names_ok isv \<Longrightarrow> isv ''p''"
  by (simp add: names_ok_def)

lemma names_ok_reserved:
  assumes "names_ok isv"
  shows "\<not> isv ''T''" "\<not> isv ''F''" "\<not> isv ''~''" "\<not> isv ''&''" "\<not> isv ''|''"
    "\<not> isv ''->''" "\<not> isv ''+''" "\<not> isv ''<->''" "\<not> isv ''-&''" "\<not> isv ''-|''"
  using assms by (simp_all add: names_ok_def reserved_tags_def binary_operators_def)

lemma sample_names_ok: "names_ok sample_names"
  by (simp add: names_ok_def reserved_tags_def binary_operators_def sample_names_def)

lemma is_binary_iff:
  "is_binary r \<longleftrightarrow>
     r = ''&'' \<or> r = ''|'' \<or> r = ''->'' \<or> r = ''+'' \<or> r = ''<->'' \<or> r = ''-&'' \<or> r = ''-|''"
  by (simp add: is_binary_def binary_operators_def)

lemma is_binary_cases [consumes 1, case_names conj disj implies xor iff nand nor]:
  assumes "is_binary r"
  obtains "r = ''&''" | "r = ''|''" | "r = ''->''" | "r = ''+''" | "r = ''<->''"
    | "r = ''-&''" | "r = ''-|''"
  using assms unfolding is_binary_iff by blast

lemma leaf_cases [consumes 2, case_names var true false]:
  assumes "names_ok isv" "well_formed isv (Leaf r)"
  obtains "isv r" | "\<not> isv r" "r = ''T''" | "\<not> isv r" "r = ''F''"
  using assms by (auto simp: is_constant_def)

lemma basis_constant_free:
  assumes "well_formed isv f" "operators isv f \<subseteq> S" "''T'' \<notin> S" "''F'' \<notin> S"
  shows "constant_free isv f"
  using assms by (induction f) (auto simp: is_constant_def split: if_splits)

lemma eval_defined:
  assumes ok: "names_ok isv"
  shows "well_formed isv f \<Longrightarrow> variables isv f \<subseteq> dom m \<Longrightarrow> \<exists>v. evaluate isv m f = Some v"
proof (induction f)
  case (Leaf r)
  then show ?case by auto
next
  case (Unary r a)
  then show ?case by auto
next
  case (Binary r a b)
  then obtain x y where "evaluate isv m a = Some x" "evaluate isv m b = Some y" by auto
  moreover from Binary.prems have "is_binary r" by simp
  then have "\<exists>v. binary_truth r x y = Some v"
    by (cases rule: is_binary_cases) (simp_all add: binary_truth_def)
  ultimately show ?case by simp
qed

section \<open>Properties of \<open>to_not_and_or\<close>\<close>

text \<open>What the converter returns at each kind of node of the grammar.\<close>

lemma nao_Leaf:
  assumes "names_ok isv"
  shows "isv r \<Longrightarrow> to_not_and_or isv (Leaf r) = Inr (Leaf r)"
    and "to_not_and_or isv (Leaf ''T'') =
           Inr (Binary ''|'' (Leaf ''p'') (Unary ''~'' (Leaf ''p'')))"
    and "to_not_and_or isv (Leaf ''F'') =
           Inr (Binary ''&'' (Leaf ''p'') (Unary ''~'' (Leaf ''p'')))"
  using names_ok_reserved[OF assms] by (simp_all add: is_constant_def Let_def)

lemma nao_Unary:
  assumes "names_ok isv" "to_not_and_or isv a = Inr ga"
  shows "to_not_and_or isv (Unary ''~'' a) = Inr (Unary ''~'' ga)"
  using names_ok_reserved[OF assms(1)] assms(2) by (simp add: is_constant_def is_unary_def)

lemma nao_Binary:
  assumes "names_ok isv" "to_not_and_or isv a = Inr ga" "to_not_and_or isv b = Inr gb"
  shows "to_not_and_or isv (Binary ''&'' a b) =
           Inr (Binary ''&'' ga gb)"
    and "to_not_and_or isv (Binary ''|'' a b) =
           Inr (Binary ''|'' ga gb)"
    and "to_not_and_or isv (Binary ''->'' a b) =
           Inr (Binary ''|'' (Unary ''~'' ga) gb)"
    and "to_not_and_or isv (Binary ''+'' a b) =
           Inr (Binary ''|'' (Binary ''&'' ga (Unary ''~'' gb)) (Binary ''&'' (Unary ''~'' ga) gb))"
    and "to_not_and_or isv (Binary ''<->'' a b) =
           Inr (Binary ''|'' (Binary ''&'' ga gb) (Binary ''&'' (Unary ''~'' ga) (Unary ''~'' gb)))"
    and "to_not_and_or isv (Binary ''-&'' a b) =
           Inr (Unary ''~'' (Binary ''&'' ga gb))"
    and "to_not_and_or isv (Binary ''-|'' a b) =
           Inr (Unary ''~'' (Binary ''|'' ga gb))"
  using names_ok_reserved[OF assms(1)] assms(2,3)
  by (simp_all add: is_constant_def is_unary_def Let_def)

declare to_not_and_or.simps [simp del]

text \<open>On a well-formed formula the converter returns a formula.\<close>

lemma nao_total:
  assumes ok: "names_ok isv"
  shows "well_formed isv f \<Longrightarrow> \<exists>g. to_not_and_or isv f = Inr g"
proof (induction f)
  case (Leaf r)
  with ok show ?case by (cases rule: leaf_cases) (simp_all add: nao_Leaf[OF ok])
next
  case (Unary r a)
  then show ?case by (auto simp: is_unary_def nao_Unary[OF ok])
next
  case (Binary r a b)
  then obtain ga gb where g: "to_not_and_or isv a = Inr ga" "to_not_and_or isv b = Inr gb" by auto
  from Binary.prems have "is_binary r" by simp
  then show ?case
    by (cases rule: is_binary_cases) (simp_all add: nao_Binary[OF ok g])
qed

text \<open>The result is well formed, stays in the basis and brings in no name but \<open>p\<close>.\<close>

lemma nao_shape:
  assumes ok: "names_ok isv"
  shows "well_formed isv f \<Longrightarrow> to_not_and_or isv f = Inr g \<Longrightarrow>
         well_formed isv g \<and> operators isv g \<subseteq> {''~'', ''&'', ''|''} \<and>
         variables isv g \<subseteq> variables isv f \<union> {''p''} \<and>
         (constant_free isv f \<longrightarrow> variables isv g \<subseteq> variables isv f)"
proof (induction f arbitrary: g)
  case (Leaf r)
  from ok Leaf.prems(1) show ?case using Leaf.prems(2) names_ok_reserved[OF ok] names_ok_p[OF ok]
    by (cases rule: leaf_cases) (auto simp: nao_Leaf[OF ok] is_unary_def is_binary_iff)
next
  case (Unary r a)
  from Unary.prems have wa: "well_formed isv a" and r: "r = ''~''" by (simp_all add: is_unary_def)
  from nao_total[OF ok wa] obtain ga where ga: "to_not_and_or isv a = Inr ga" ..
  from Unary.IH[OF wa ga] Unary.prems(2) names_ok_reserved[OF ok] show ?case
    by (auto simp: r nao_Unary[OF ok ga] is_unary_def)
next
  case (Binary r a b)
  from Binary.prems have wa: "well_formed isv a" and wb: "well_formed isv b"
    and bin: "is_binary r" by simp_all
  from nao_total[OF ok wa] obtain ga where ga: "to_not_and_or isv a = Inr ga" ..
  from nao_total[OF ok wb] obtain gb where gb: "to_not_and_or isv b = Inr gb" ..
  from bin show ?case
    using Binary.IH(1)[OF wa ga] Binary.IH(2)[OF wb gb] Binary.prems(2) names_ok_reserved[OF ok]
    by (cases rule: is_binary_cases)
       (auto simp: nao_Binary[OF ok ga gb] is_unary_def is_binary_iff)
qed

text \<open>
  The result has the truth value of the input under every assignment that covers the
  variables of the input, and \<open>p\<close> when the input has a constant.
\<close>

lemma nao_eval:
  assumes ok: "names_ok isv"
  shows "well_formed isv f \<Longrightarrow> to_not_and_or isv f = Inr g \<Longrightarrow> variables isv f \<subseteq> dom m \<Longrightarrow>
         constant_free isv f \<or> ''p'' \<in> dom m \<Longrightarrow> evaluate isv m g = evaluate isv m f"
proof (induction f arbitrary: g)
  case (Leaf r)
  from ok Leaf.prems(1) show ?case
    using Leaf.prems(2,4) names_ok_reserved[OF ok] names_ok_p[OF ok]
    by (cases rule: leaf_cases)
       (auto simp: nao_Leaf[OF ok] is_unary_def is_constant_def binary_truth_def)
next
  case (Unary r a)
  from Unary.prems have wa: "well_formed isv a" and r: "r = ''~''" by (simp_all add: is_unary_def)
  from nao_total[OF ok wa] obtain ga where ga: "to_not_and_or isv a = Inr ga" ..
  from Unary.prems have "evaluate isv m ga = evaluate isv m a"
    by (intro Unary.IH[OF wa ga]) simp_all
  with Unary.prems(2) show ?case
    by (auto simp: r nao_Unary[OF ok ga] is_unary_def)
next
  case (Binary r a b)
  from Binary.prems have wa: "well_formed isv a" and wb: "well_formed isv b"
    and bin: "is_binary r" by simp_all
  from nao_total[OF ok wa] obtain ga where ga: "to_not_and_or isv a = Inr ga" ..
  from nao_total[OF ok wb] obtain gb where gb: "to_not_and_or isv b = Inr gb" ..
  from Binary.prems have ea: "evaluate isv m ga = evaluate isv m a"
    by (intro Binary.IH(1)[OF wa ga]) auto
  from Binary.prems have eb: "evaluate isv m gb = evaluate isv m b"
    by (intro Binary.IH(2)[OF wb gb]) auto
  from bin show ?case using Binary.prems(2) ea eb
    by (cases rule: is_binary_cases)
       (auto simp: nao_Binary[OF ok ga gb] is_unary_def binary_truth_def split: option.splits)
qed

text \<open>A constant-free formula over the basis is returned as it is.\<close>

lemma nao_id:
  assumes ok: "names_ok isv"
  shows "well_formed isv f \<Longrightarrow> operators isv f \<subseteq> {''~'', ''&'', ''|''} \<Longrightarrow>
         to_not_and_or isv f = Inr f"
proof (induction f)
  case (Leaf r)
  then show ?case by (auto simp: nao_Leaf[OF ok] is_constant_def split: if_splits)
next
  case (Unary r a)
  then show ?case by (simp add: is_unary_def nao_Unary[OF ok])
next
  case (Binary r a b)
  then have ga: "to_not_and_or isv a = Inr a" and gb: "to_not_and_or isv b = Inr b" by simp_all
  from Binary.prems have "r = ''&'' \<or> r = ''|''" by (auto simp: is_binary_iff)
  then show ?case by (auto simp: nao_Binary[OF ok ga gb])
qed

section \<open>Properties of \<open>to_not_and\<close>\<close>

text \<open>What the converter returns at each kind of node of the grammar.\<close>

lemma na_Leaf:
  assumes "names_ok isv"
  shows "isv r \<Longrightarrow> to_not_and isv (Leaf r) = Inr (Leaf r)"
    and "to_not_and isv (Leaf ''T'') =
           Inr (Unary ''~'' (Binary ''&'' (Leaf ''p'') (Unary ''~'' (Leaf ''p''))))"
    and "to_not_and isv (Leaf ''F'') =
           Inr (Binary ''&'' (Leaf ''p'') (Unary ''~'' (Leaf ''p'')))"
  using names_ok_reserved[OF assms] by (simp_all add: is_constant_def Let_def)

lemma na_Unary:
  assumes "names_ok isv" "to_not_and isv a = Inr ga"
  shows "to_not_and isv (Unary ''~'' a) = Inr (Unary ''~'' ga)"
  using names_ok_reserved[OF assms(1)] assms(2) by (simp add: is_constant_def is_unary_def)

lemma na_Binary:
  assumes "names_ok isv" "to_not_and isv a = Inr ga" "to_not_and isv b = Inr gb"
  shows "to_not_and isv (Binary ''&'' a b) =
           Inr (Binary ''&'' ga gb)"
    and "to_not_and isv (Binary ''|'' a b) =
           Inr (Unary ''~'' (Binary ''&'' (Unary ''~'' ga) (Unary ''~'' gb)))"
    and "to_not_and isv (Binary ''->'' a b) =
           Inr (Unary ''~'' (Binary ''&'' ga (Unary ''~'' gb)))"
    and "to_not_and isv (Binary ''+'' a b) =
           Inr (Unary ''~'' (Binary ''&'' (Unary ''~'' (Binary ''&'' ga (Unary ''~'' gb))) (Unary ''~'' (Binary ''&'' (Unary ''~'' ga) gb))))"
    and "to_not_and isv (Binary ''<->'' a b) =
           Inr (Unary ''~'' (Unary ''~'' (Binary ''&'' (Unary ''~'' (Binary ''&'' ga (Unary ''~'' gb))) (Unary ''~'' (Binary ''&'' (Unary ''~'' ga) gb)))))"
    and "to_not_and isv (Binary ''-&'' a b) =
           Inr (Unary ''~'' (Binary ''&'' ga gb))"
    and "to_not_and isv (Binary ''-|'' a b) =
           Inr (Binary ''&'' (Unary ''~'' ga) (Unary ''~'' gb))"
  using names_ok_reserved[OF assms(1)] assms(2,3)
  by (simp_all add: is_constant_def is_unary_def Let_def)

declare to_not_and.simps [simp del]

text \<open>On a well-formed formula the converter returns a formula.\<close>

lemma na_total:
  assumes ok: "names_ok isv"
  shows "well_formed isv f \<Longrightarrow> \<exists>g. to_not_and isv f = Inr g"
proof (induction f)
  case (Leaf r)
  with ok show ?case by (cases rule: leaf_cases) (simp_all add: na_Leaf[OF ok])
next
  case (Unary r a)
  then show ?case by (auto simp: is_unary_def na_Unary[OF ok])
next
  case (Binary r a b)
  then obtain ga gb where g: "to_not_and isv a = Inr ga" "to_not_and isv b = Inr gb" by auto
  from Binary.prems have "is_binary r" by simp
  then show ?case
    by (cases rule: is_binary_cases) (simp_all add: na_Binary[OF ok g])
qed

text \<open>The result is well formed, stays in the basis and brings in no name but \<open>p\<close>.\<close>

lemma na_shape:
  assumes ok: "names_ok isv"
  shows "well_formed isv f \<Longrightarrow> to_not_and isv f = Inr g \<Longrightarrow>
         well_formed isv g \<and> operators isv g \<subseteq> {''~'', ''&''} \<and>
         variables isv g \<subseteq> variables isv f \<union> {''p''} \<and>
         (constant_free isv f \<longrightarrow> variables isv g \<subseteq> variables isv f)"
proof (induction f arbitrary: g)
  case (Leaf r)
  from ok Leaf.prems(1) show ?case using Leaf.prems(2) names_ok_reserved[OF ok] names_ok_p[OF ok]
    by (cases rule: leaf_cases) (auto simp: na_Leaf[OF ok] is_unary_def is_binary_iff)
next
  case (Unary r a)
  from Unary.prems have wa: "well_formed isv a" and r: "r = ''~''" by (simp_all add: is_unary_def)
  from na_total[OF ok wa] obtain ga where ga: "to_not_and isv a = Inr ga" ..
  from Unary.IH[OF wa ga] Unary.prems(2) names_ok_reserved[OF ok] show ?case
    by (auto simp: r na_Unary[OF ok ga] is_unary_def)
next
  case (Binary r a b)
  from Binary.prems have wa: "well_formed isv a" and wb: "well_formed isv b"
    and bin: "is_binary r" by simp_all
  from na_total[OF ok wa] obtain ga where ga: "to_not_and isv a = Inr ga" ..
  from na_total[OF ok wb] obtain gb where gb: "to_not_and isv b = Inr gb" ..
  from bin show ?case
    using Binary.IH(1)[OF wa ga] Binary.IH(2)[OF wb gb] Binary.prems(2) names_ok_reserved[OF ok]
    by (cases rule: is_binary_cases)
       (auto simp: na_Binary[OF ok ga gb] is_unary_def is_binary_iff)
qed

text \<open>
  The result has the truth value of the input under every assignment that covers the
  variables of the input, and \<open>p\<close> when the input has a constant.
\<close>

lemma na_eval:
  assumes ok: "names_ok isv"
  shows "well_formed isv f \<Longrightarrow> to_not_and isv f = Inr g \<Longrightarrow> variables isv f \<subseteq> dom m \<Longrightarrow>
         constant_free isv f \<or> ''p'' \<in> dom m \<Longrightarrow> evaluate isv m g = evaluate isv m f"
proof (induction f arbitrary: g)
  case (Leaf r)
  from ok Leaf.prems(1) show ?case
    using Leaf.prems(2,4) names_ok_reserved[OF ok] names_ok_p[OF ok]
    by (cases rule: leaf_cases)
       (auto simp: na_Leaf[OF ok] is_unary_def is_constant_def binary_truth_def)
next
  case (Unary r a)
  from Unary.prems have wa: "well_formed isv a" and r: "r = ''~''" by (simp_all add: is_unary_def)
  from na_total[OF ok wa] obtain ga where ga: "to_not_and isv a = Inr ga" ..
  from Unary.prems have "evaluate isv m ga = evaluate isv m a"
    by (intro Unary.IH[OF wa ga]) simp_all
  with Unary.prems(2) show ?case
    by (auto simp: r na_Unary[OF ok ga] is_unary_def)
next
  case (Binary r a b)
  from Binary.prems have wa: "well_formed isv a" and wb: "well_formed isv b"
    and bin: "is_binary r" by simp_all
  from na_total[OF ok wa] obtain ga where ga: "to_not_and isv a = Inr ga" ..
  from na_total[OF ok wb] obtain gb where gb: "to_not_and isv b = Inr gb" ..
  from Binary.prems have ea: "evaluate isv m ga = evaluate isv m a"
    by (intro Binary.IH(1)[OF wa ga]) auto
  from Binary.prems have eb: "evaluate isv m gb = evaluate isv m b"
    by (intro Binary.IH(2)[OF wb gb]) auto
  from bin show ?case using Binary.prems(2) ea eb
    by (cases rule: is_binary_cases)
       (auto simp: na_Binary[OF ok ga gb] is_unary_def binary_truth_def split: option.splits)
qed

text \<open>A constant-free formula over the basis is returned as it is.\<close>

lemma na_id:
  assumes ok: "names_ok isv"
  shows "well_formed isv f \<Longrightarrow> operators isv f \<subseteq> {''~'', ''&''} \<Longrightarrow>
         to_not_and isv f = Inr f"
proof (induction f)
  case (Leaf r)
  then show ?case by (auto simp: na_Leaf[OF ok] is_constant_def split: if_splits)
next
  case (Unary r a)
  then show ?case by (simp add: is_unary_def na_Unary[OF ok])
next
  case (Binary r a b)
  then have ga: "to_not_and isv a = Inr a" and gb: "to_not_and isv b = Inr b" by simp_all
  from Binary.prems have "r = ''&''" by (auto simp: is_binary_iff)
  then show ?case by (auto simp: na_Binary[OF ok ga gb])
qed

section \<open>Properties of \<open>to_implies_not\<close>\<close>

text \<open>What the converter returns at each kind of node of the grammar.\<close>

lemma tin_Leaf:
  assumes "names_ok isv"
  shows "isv r \<Longrightarrow> to_implies_not isv (Leaf r) = Inr (Leaf r)"
    and "to_implies_not isv (Leaf ''T'') =
           Inr (Binary ''->'' (Leaf ''p'') (Leaf ''p''))"
    and "to_implies_not isv (Leaf ''F'') =
           Inr (Unary ''~'' (Binary ''->'' (Leaf ''p'') (Leaf ''p'')))"
  using names_ok_reserved[OF assms] by (simp_all add: is_constant_def Let_def imp_def neg_def)

lemma tin_Unary:
  assumes "names_ok isv" "to_implies_not isv a = Inr ga"
  shows "to_implies_not isv (Unary ''~'' a) = Inr (Unary ''~'' ga)"
  using names_ok_reserved[OF assms(1)] assms(2) by (simp add: is_constant_def is_unary_def imp_def neg_def)

lemma tin_Binary:
  assumes "names_ok isv" "to_implies_not isv a = Inr ga" "to_implies_not isv b = Inr gb"
  shows "to_implies_not isv (Binary ''->'' a b) =
           Inr (Binary ''->'' ga gb)"
    and "to_implies_not isv (Binary ''|'' a b) =
           Inr (Binary ''->'' (Unary ''~'' ga) gb)"
    and "to_implies_not isv (Binary ''&'' a b) =
           Inr (Unary ''~'' (Binary ''->'' ga (Unary ''~'' gb)))"
    and "to_implies_not isv (Binary ''+'' a b) =
           Inr (Binary ''->'' (Binary ''->'' ga gb) (Unary ''~'' (Binary ''->'' gb ga)))"
    and "to_implies_not isv (Binary ''<->'' a b) =
           Inr (Unary ''~'' (Binary ''->'' (Binary ''->'' ga gb) (Unary ''~'' (Binary ''->'' gb ga))))"
    and "to_implies_not isv (Binary ''-&'' a b) =
           Inr (Binary ''->'' ga (Unary ''~'' gb))"
    and "to_implies_not isv (Binary ''-|'' a b) =
           Inr (Unary ''~'' (Binary ''->'' (Unary ''~'' ga) gb))"
  using names_ok_reserved[OF assms(1)] assms(2,3)
  by (simp_all add: is_constant_def is_unary_def Let_def imp_def neg_def)

declare to_implies_not.simps [simp del]

text \<open>On a well-formed formula the converter returns a formula.\<close>

lemma tin_total:
  assumes ok: "names_ok isv"
  shows "well_formed isv f \<Longrightarrow> \<exists>g. to_implies_not isv f = Inr g"
proof (induction f)
  case (Leaf r)
  with ok show ?case by (cases rule: leaf_cases) (simp_all add: tin_Leaf[OF ok])
next
  case (Unary r a)
  then show ?case by (auto simp: is_unary_def tin_Unary[OF ok])
next
  case (Binary r a b)
  then obtain ga gb where g: "to_implies_not isv a = Inr ga" "to_implies_not isv b = Inr gb" by auto
  from Binary.prems have "is_binary r" by simp
  then show ?case
    by (cases rule: is_binary_cases) (simp_all add: tin_Binary[OF ok g])
qed

text \<open>The result is well formed, stays in the basis and brings in no name but \<open>p\<close>.\<close>

lemma tin_shape:
  assumes ok: "names_ok isv"
  shows "well_formed isv f \<Longrightarrow> to_implies_not isv f = Inr g \<Longrightarrow>
         well_formed isv g \<and> operators isv g \<subseteq> {''->'', ''~''} \<and>
         variables isv g \<subseteq> variables isv f \<union> {''p''} \<and>
         (constant_free isv f \<longrightarrow> variables isv g \<subseteq> variables isv f)"
proof (induction f arbitrary: g)
  case (Leaf r)
  from ok Leaf.prems(1) show ?case using Leaf.prems(2) names_ok_reserved[OF ok] names_ok_p[OF ok]
    by (cases rule: leaf_cases) (auto simp: tin_Leaf[OF ok] is_unary_def is_binary_iff)
next
  case (Unary r a)
  from Unary.prems have wa: "well_formed isv a" and r: "r = ''~''" by (simp_all add: is_unary_def)
  from tin_total[OF ok wa] obtain ga where ga: "to_implies_not isv a = Inr ga" ..
  from Unary.IH[OF wa ga] Unary.prems(2) names_ok_reserved[OF ok] show ?case
    by (auto simp: r tin_Unary[OF ok ga] is_unary_def)
next
  case (Binary r a b)
  from Binary.prems have wa: "well_formed isv a" and wb: "well_formed isv b"
    and bin: "is_binary r" by simp_all
  from tin_total[OF ok wa] obtain ga where ga: "to_implies_not isv a = Inr ga" ..
  from tin_total[OF ok wb] obtain gb where gb: "to_implies_not isv b = Inr gb" ..
  from bin show ?case
    using Binary.IH(1)[OF wa ga] Binary.IH(2)[OF wb gb] Binary.prems(2) names_ok_reserved[OF ok]
    by (cases rule: is_binary_cases)
       (auto simp: tin_Binary[OF ok ga gb] is_unary_def is_binary_iff)
qed

text \<open>
  The result has the truth value of the input under every assignment that covers the
  variables of the input, and \<open>p\<close> when the input has a constant.
\<close>

lemma tin_eval:
  assumes ok: "names_ok isv"
  shows "well_formed isv f \<Longrightarrow> to_implies_not isv f = Inr g \<Longrightarrow> variables isv f \<subseteq> dom m \<Longrightarrow>
         constant_free isv f \<or> ''p'' \<in> dom m \<Longrightarrow> evaluate isv m g = evaluate isv m f"
proof (induction f arbitrary: g)
  case (Leaf r)
  from ok Leaf.prems(1) show ?case
    using Leaf.prems(2,4) names_ok_reserved[OF ok] names_ok_p[OF ok]
    by (cases rule: leaf_cases)
       (auto simp: tin_Leaf[OF ok] is_unary_def is_constant_def binary_truth_def)
next
  case (Unary r a)
  from Unary.prems have wa: "well_formed isv a" and r: "r = ''~''" by (simp_all add: is_unary_def)
  from tin_total[OF ok wa] obtain ga where ga: "to_implies_not isv a = Inr ga" ..
  from Unary.prems have "evaluate isv m ga = evaluate isv m a"
    by (intro Unary.IH[OF wa ga]) simp_all
  with Unary.prems(2) show ?case
    by (auto simp: r tin_Unary[OF ok ga] is_unary_def)
next
  case (Binary r a b)
  from Binary.prems have wa: "well_formed isv a" and wb: "well_formed isv b"
    and bin: "is_binary r" by simp_all
  from tin_total[OF ok wa] obtain ga where ga: "to_implies_not isv a = Inr ga" ..
  from tin_total[OF ok wb] obtain gb where gb: "to_implies_not isv b = Inr gb" ..
  from Binary.prems have ea: "evaluate isv m ga = evaluate isv m a"
    by (intro Binary.IH(1)[OF wa ga]) auto
  from Binary.prems have eb: "evaluate isv m gb = evaluate isv m b"
    by (intro Binary.IH(2)[OF wb gb]) auto
  from bin show ?case using Binary.prems(2) ea eb
    by (cases rule: is_binary_cases)
       (auto simp: tin_Binary[OF ok ga gb] is_unary_def binary_truth_def split: option.splits)
qed

text \<open>A constant-free formula over the basis is returned as it is.\<close>

lemma tin_id:
  assumes ok: "names_ok isv"
  shows "well_formed isv f \<Longrightarrow> operators isv f \<subseteq> {''->'', ''~''} \<Longrightarrow>
         to_implies_not isv f = Inr f"
proof (induction f)
  case (Leaf r)
  then show ?case by (auto simp: tin_Leaf[OF ok] is_constant_def split: if_splits)
next
  case (Unary r a)
  then show ?case by (simp add: is_unary_def tin_Unary[OF ok])
next
  case (Binary r a b)
  then have ga: "to_implies_not isv a = Inr a" and gb: "to_implies_not isv b = Inr b" by simp_all
  from Binary.prems have "r = ''->''" by (auto simp: is_binary_iff)
  then show ?case by (auto simp: tin_Binary[OF ok ga gb])
qed

section \<open>The second passes \<open>convert\<close> and \<open>eliminate\<close>\<close>

text \<open>
  On a well-formed formula over \<open>~\<close> and \<open>&\<close>, \<open>convert\<close> returns a well-formed formula
  over \<open>-&\<close> with the same variables and the same truth value under every assignment.
\<close>

lemma convert_props:
  assumes ok: "names_ok isv"
  shows "well_formed isv f \<Longrightarrow> operators isv f \<subseteq> {''~'', ''&''} \<Longrightarrow>
         \<exists>g. convert isv f = Inr g \<and> well_formed isv g \<and> operators isv g \<subseteq> {''-&''} \<and>
             variables isv g = variables isv f \<and>
             (\<forall>m. evaluate isv m g = evaluate isv m f)"
proof (induction f)
  case (Leaf r)
  then have "isv r" by (auto simp: is_constant_def split: if_splits)
  then show ?case by simp
next
  case (Unary r a)
  then obtain ga where ga: "convert isv a = Inr ga" "well_formed isv ga"
    "operators isv ga \<subseteq> {''-&''}" "variables isv ga = variables isv a"
    "\<forall>m. evaluate isv m ga = evaluate isv m a"
    by auto
  from Unary.prems have r: "r = ''~''" by (simp add: is_unary_def)
  have "convert isv (Unary r a) = Inr (Binary ''-&'' ga ga)"
    using names_ok_reserved[OF ok] ga(1) by (simp add: r is_unary_def)
  moreover have "\<forall>m. evaluate isv m (Binary ''-&'' ga ga) = evaluate isv m (Unary r a)"
    using ga(5) by (auto simp: r is_unary_def binary_truth_def split: option.splits)
  ultimately show ?case using ga(2-4) names_ok_reserved[OF ok]
    by (simp add: is_binary_iff)
next
  case (Binary r a b)
  then obtain ga where ga: "convert isv a = Inr ga" "well_formed isv ga"
    "operators isv ga \<subseteq> {''-&''}" "variables isv ga = variables isv a"
    "\<forall>m. evaluate isv m ga = evaluate isv m a"
    by auto
  from Binary obtain gb where gb: "convert isv b = Inr gb" "well_formed isv gb"
    "operators isv gb \<subseteq> {''-&''}" "variables isv gb = variables isv b"
    "\<forall>m. evaluate isv m gb = evaluate isv m b"
    by auto
  from Binary.prems have r: "r = ''&''" by (auto simp: is_binary_iff)
  let ?nand = "Binary ''-&'' ga gb"
  have "convert isv (Binary r a b) = Inr (Binary ''-&'' ?nand ?nand)"
    using names_ok_reserved[OF ok] ga(1) gb(1) by (simp add: r is_unary_def Let_def)
  moreover have "\<forall>m. evaluate isv m (Binary ''-&'' ?nand ?nand) = evaluate isv m (Binary r a b)"
    using ga(5) gb(5) by (auto simp: r binary_truth_def split: option.splits)
  ultimately show ?case using ga(2-4) gb(2-4) names_ok_reserved[OF ok]
    by (auto simp: is_binary_iff)
qed

text \<open>
  On a well-formed formula over \<open>->\<close> and \<open>~\<close>, \<open>eliminate\<close> returns a well-formed
  formula over \<open>->\<close> and \<open>F\<close> with the same variables and the same truth value.
\<close>

lemma eliminate_props:
  assumes ok: "names_ok isv"
  shows "well_formed isv f \<Longrightarrow> operators isv f \<subseteq> {''->'', ''~''} \<Longrightarrow>
         \<exists>g. eliminate isv f = Inr g \<and> well_formed isv g \<and>
             operators isv g \<subseteq> {''->'', ''F''} \<and>
             variables isv g = variables isv f \<and>
             (\<forall>m. evaluate isv m g = evaluate isv m f)"
proof (induction f)
  case (Leaf r)
  then have "isv r" by (auto simp: is_constant_def split: if_splits)
  then show ?case by simp
next
  case (Unary r a)
  then obtain ga where ga: "eliminate isv a = Inr ga" "well_formed isv ga"
    "operators isv ga \<subseteq> {''->'', ''F''}" "variables isv ga = variables isv a"
    "\<forall>m. evaluate isv m ga = evaluate isv m a"
    by auto
  from Unary.prems have r: "r = ''~''" by (simp add: is_unary_def)
  let ?g = "Binary ''->'' ga (Leaf ''F'')"
  have "eliminate isv (Unary r a) = Inr ?g"
    using names_ok_reserved[OF ok] ga(1) by (simp add: r is_unary_def)
  moreover have "\<forall>m. evaluate isv m ?g = evaluate isv m (Unary r a)"
    using ga(5) names_ok_reserved[OF ok]
    by (auto simp: r is_unary_def is_constant_def binary_truth_def split: option.splits)
  ultimately show ?case using ga(2-4) names_ok_reserved[OF ok]
    by (auto simp: is_binary_iff is_constant_def)
next
  case (Binary r a b)
  then obtain ga where ga: "eliminate isv a = Inr ga" "well_formed isv ga"
    "operators isv ga \<subseteq> {''->'', ''F''}" "variables isv ga = variables isv a"
    "\<forall>m. evaluate isv m ga = evaluate isv m a"
    by auto
  from Binary obtain gb where gb: "eliminate isv b = Inr gb" "well_formed isv gb"
    "operators isv gb \<subseteq> {''->'', ''F''}" "variables isv gb = variables isv b"
    "\<forall>m. evaluate isv m gb = evaluate isv m b"
    by auto
  from Binary.prems have r: "r = ''->''" by (auto simp: is_binary_iff)
  have "eliminate isv (Binary r a b) = Inr (Binary ''->'' ga gb)"
    using names_ok_reserved[OF ok] ga(1) gb(1) by (simp add: r is_unary_def)
  moreover have "\<forall>m. evaluate isv m (Binary ''->'' ga gb) = evaluate isv m (Binary r a b)"
    using ga(5) gb(5) by (auto simp: r split: option.splits)
  ultimately show ?case using ga(2-4) gb(2-4) names_ok_reserved[OF ok]
    by (auto simp: is_binary_iff)
qed

section \<open>Properties of \<open>to_nand\<close> and \<open>to_implies_false\<close>\<close>

lemma to_nand_props:
  assumes ok: "names_ok isv" and wf: "well_formed isv f"
  shows "\<exists>g. to_nand isv f = Inr g \<and> well_formed isv g \<and> operators isv g \<subseteq> {''-&''} \<and>
             variables isv g \<subseteq> variables isv f \<union> {''p''} \<and>
             (constant_free isv f \<longrightarrow> variables isv g \<subseteq> variables isv f) \<and>
             (\<forall>m. variables isv f \<subseteq> dom m \<longrightarrow> constant_free isv f \<or> ''p'' \<in> dom m \<longrightarrow>
                  evaluate isv m g = evaluate isv m f)"
proof -
  from na_total[OF ok wf] obtain h where h: "to_not_and isv f = Inr h" ..
  note sh = na_shape[OF ok wf h]
  from sh have "well_formed isv h" "operators isv h \<subseteq> {''~'', ''&''}" by simp_all
  from convert_props[OF ok this] obtain g where g: "convert isv h = Inr g"
    "well_formed isv g" "operators isv g \<subseteq> {''-&''}" "variables isv g = variables isv h"
    "\<forall>m. evaluate isv m g = evaluate isv m h"
    by auto
  have "to_nand isv f = Inr g" by (simp add: to_nand_def h g(1))
  moreover have "\<forall>m. variables isv f \<subseteq> dom m \<longrightarrow> constant_free isv f \<or> ''p'' \<in> dom m \<longrightarrow>
      evaluate isv m g = evaluate isv m f"
    using g(5) na_eval[OF ok wf h] by simp
  ultimately show ?thesis using g(2-4) sh by auto
qed

lemma to_implies_false_props:
  assumes ok: "names_ok isv" and wf: "well_formed isv f"
  shows "\<exists>g. to_implies_false isv f = Inr g \<and> well_formed isv g \<and>
             operators isv g \<subseteq> {''->'', ''F''} \<and>
             variables isv g \<subseteq> variables isv f \<union> {''p''} \<and>
             (constant_free isv f \<longrightarrow> variables isv g \<subseteq> variables isv f) \<and>
             (\<forall>m. variables isv f \<subseteq> dom m \<longrightarrow> constant_free isv f \<or> ''p'' \<in> dom m \<longrightarrow>
                  evaluate isv m g = evaluate isv m f)"
proof -
  from tin_total[OF ok wf] obtain h where h: "to_implies_not isv f = Inr h" ..
  note sh = tin_shape[OF ok wf h]
  from sh have "well_formed isv h" "operators isv h \<subseteq> {''->'', ''~''}" by simp_all
  from eliminate_props[OF ok this] obtain g where g: "eliminate isv h = Inr g"
    "well_formed isv g" "operators isv g \<subseteq> {''->'', ''F''}" "variables isv g = variables isv h"
    "\<forall>m. evaluate isv m g = evaluate isv m h"
    by auto
  have "to_implies_false isv f = Inr g" by (simp add: to_implies_false_def h g(1))
  moreover have "\<forall>m. variables isv f \<subseteq> dom m \<longrightarrow> constant_free isv f \<or> ''p'' \<in> dom m \<longrightarrow>
      evaluate isv m g = evaluate isv m f"
    using g(5) tin_eval[OF ok wf h] by simp
  ultimately show ?thesis using g(2-4) sh by auto
qed

section \<open>Outside the grammar\<close>

text \<open>
  The last line of a converter is reached by a node with two operands whose root is none
  of the seven binary operators; reading an operand that a node does not have is the
  other error.
\<close>

lemma unknown_operator_reachable:
  "to_not_and_or sample_names (Binary ''^'' (Leaf ''x'') (Leaf ''y'')) =
     Inl (ValueError ''Unknown operator: ^'')"
  by (simp add: to_not_and_or.simps sample_names_def is_constant_def is_unary_def)

lemma missing_operand_reachable:
  "to_not_and_or sample_names (Unary ''&'' (Leaf ''x'')) = Inl AttributeError"
  by (simp add: to_not_and_or.simps sample_names_def is_constant_def is_unary_def)

section \<open>The claims\<close>

text \<open>
  Claim C1.  For every well-formed formula \<open>f\<close> and every assignment \<open>m\<close> that gives a
  truth value to the variables of \<open>f\<close> and to the helper variable \<open>p\<close> (which may
  itself occur in \<open>f\<close>), \<open>f\<close> has a truth value under \<open>m\<close>, each of the five
  converters returns a formula, and that formula has the same truth value under \<open>m\<close>.
\<close>

theorem converters_preserve_truth_value:
  assumes "names_ok isv" and "well_formed isv f" and "variables isv f \<union> {''p''} \<subseteq> dom m"
  shows "\<exists>v. evaluate isv m f = Some v \<and>
           (\<exists>g. to_not_and_or isv f = Inr g \<and> evaluate isv m g = Some v) \<and>
           (\<exists>g. to_not_and isv f = Inr g \<and> evaluate isv m g = Some v) \<and>
           (\<exists>g. to_nand isv f = Inr g \<and> evaluate isv m g = Some v) \<and>
           (\<exists>g. to_implies_not isv f = Inr g \<and> evaluate isv m g = Some v) \<and>
           (\<exists>g. to_implies_false isv f = Inr g \<and> evaluate isv m g = Some v)"
proof -
  from assms(3) have vars: "variables isv f \<subseteq> dom m" and p: "''p'' \<in> dom m" by simp_all
  from eval_defined[OF assms(1,2) vars] obtain v where v: "evaluate isv m f = Some v" ..
  from nao_total[OF assms(1,2)] obtain g1 where g1: "to_not_and_or isv f = Inr g1" ..
  from na_total[OF assms(1,2)] obtain g2 where g2: "to_not_and isv f = Inr g2" ..
  from to_nand_props[OF assms(1,2)] obtain g3 where g3: "to_nand isv f = Inr g3"
    "\<forall>m. variables isv f \<subseteq> dom m \<longrightarrow> constant_free isv f \<or> ''p'' \<in> dom m \<longrightarrow>
         evaluate isv m g3 = evaluate isv m f"
    by blast
  from tin_total[OF assms(1,2)] obtain g4 where g4: "to_implies_not isv f = Inr g4" ..
  from to_implies_false_props[OF assms(1,2)] obtain g5 where g5: "to_implies_false isv f = Inr g5"
    "\<forall>m. variables isv f \<subseteq> dom m \<longrightarrow> constant_free isv f \<or> ''p'' \<in> dom m \<longrightarrow>
         evaluate isv m g5 = evaluate isv m f"
    by blast
  have "evaluate isv m g1 = Some v"
    using nao_eval[OF assms(1,2) g1 vars] p v by simp
  moreover have "evaluate isv m g2 = Some v"
    using na_eval[OF assms(1,2) g2 vars] p v by simp
  moreover have "evaluate isv m g3 = Some v"
    using g3(2) vars p v by simp
  moreover have "evaluate isv m g4 = Some v"
    using tin_eval[OF assms(1,2) g4 vars] p v by simp
  moreover have "evaluate isv m g5 = Some v"
    using g5(2) vars p v by simp
  ultimately show ?thesis using v g1 g2 g3(1) g4 g5(1) by simp
qed

theorem converters_preserve_truth_value_witness:
  "names_ok sample_names \<and>
   well_formed sample_names
     (Binary ''<->'' (Leaf ''x'') (Unary ''~'' (Binary ''+'' (Leaf ''p'') (Leaf ''T'')))) \<and>
   variables sample_names
     (Binary ''<->'' (Leaf ''x'') (Unary ''~'' (Binary ''+'' (Leaf ''p'') (Leaf ''T''))))
     \<union> {''p''} \<subseteq> dom [''x'' \<mapsto> True, ''p'' \<mapsto> False] \<and>
   (\<exists>v. evaluate sample_names [''x'' \<mapsto> True, ''p'' \<mapsto> False]
          (Binary ''<->'' (Leaf ''x'') (Unary ''~'' (Binary ''+'' (Leaf ''p'') (Leaf ''T''))))
        = Some v \<and>
      (\<exists>g. to_nand sample_names
              (Binary ''<->'' (Leaf ''x'') (Unary ''~'' (Binary ''+'' (Leaf ''p'') (Leaf ''T''))))
            = Inr g \<and>
           evaluate sample_names [''x'' \<mapsto> True, ''p'' \<mapsto> False] g = Some v))"
proof -
  let ?f = "Binary ''<->'' (Leaf ''x'') (Unary ''~'' (Binary ''+'' (Leaf ''p'') (Leaf ''T'')))"
  let ?m = "[''x'' \<mapsto> True, ''p'' \<mapsto> False]"
  have h1: "names_ok sample_names" by (rule sample_names_ok)
  have h2: "well_formed sample_names ?f"
    by (simp add: sample_names_def is_binary_iff is_unary_def is_constant_def)
  have h3: "variables sample_names ?f \<union> {''p''} \<subseteq> dom ?m"
    by (simp add: sample_names_def)
  from converters_preserve_truth_value[OF h1 h2 h3] h1 h2 h3 show ?thesis by blast
qed

text \<open>
  Claim C2.  For every well-formed formula \<open>f\<close>, each converter returns a well-formed
  formula whose operator and constant tags lie in its basis: \<open>~\<close>, \<open>&\<close>, \<open>|\<close> for
  \<open>to_not_and_or\<close>; \<open>~\<close>, \<open>&\<close> for \<open>to_not_and\<close>; \<open>-&\<close> for \<open>to_nand\<close>; \<open>->\<close>, \<open>~\<close> for
  \<open>to_implies_not\<close>; \<open>->\<close> and the constant \<open>F\<close> for \<open>to_implies_false\<close>.  The first
  four results have no constant leaf.
\<close>

theorem converters_stay_in_basis:
  assumes "names_ok isv" and "well_formed isv f"
  shows "(\<exists>g. to_not_and_or isv f = Inr g \<and> well_formed isv g \<and> constant_free isv g \<and>
              operators isv g \<subseteq> {''~'', ''&'', ''|''}) \<and>
         (\<exists>g. to_not_and isv f = Inr g \<and> well_formed isv g \<and> constant_free isv g \<and>
              operators isv g \<subseteq> {''~'', ''&''}) \<and>
         (\<exists>g. to_nand isv f = Inr g \<and> well_formed isv g \<and> constant_free isv g \<and>
              operators isv g \<subseteq> {''-&''}) \<and>
         (\<exists>g. to_implies_not isv f = Inr g \<and> well_formed isv g \<and> constant_free isv g \<and>
              operators isv g \<subseteq> {''->'', ''~''}) \<and>
         (\<exists>g. to_implies_false isv f = Inr g \<and> well_formed isv g \<and>
              operators isv g \<subseteq> {''->'', ''F''})"
proof -
  from nao_total[OF assms] obtain g1 where g1: "to_not_and_or isv f = Inr g1" ..
  from nao_shape[OF assms g1]
  have s1: "well_formed isv g1" "operators isv g1 \<subseteq> {''~'', ''&'', ''|''}" by simp_all
  from basis_constant_free[OF s1] have c1: "constant_free isv g1" by simp
  from na_total[OF assms] obtain g2 where g2: "to_not_and isv f = Inr g2" ..
  from na_shape[OF assms g2]
  have s2: "well_formed isv g2" "operators isv g2 \<subseteq> {''~'', ''&''}" by simp_all
  from basis_constant_free[OF s2] have c2: "constant_free isv g2" by simp
  from to_nand_props[OF assms] obtain g3 where g3: "to_nand isv f = Inr g3"
    and s3: "well_formed isv g3" "operators isv g3 \<subseteq> {''-&''}" by blast
  from basis_constant_free[OF s3] have c3: "constant_free isv g3" by simp
  from tin_total[OF assms] obtain g4 where g4: "to_implies_not isv f = Inr g4" ..
  from tin_shape[OF assms g4]
  have s4: "well_formed isv g4" "operators isv g4 \<subseteq> {''->'', ''~''}" by simp_all
  from basis_constant_free[OF s4] have c4: "constant_free isv g4" by simp
  from to_implies_false_props[OF assms] obtain g5 where g5: "to_implies_false isv f = Inr g5"
    and s5: "well_formed isv g5" "operators isv g5 \<subseteq> {''->'', ''F''}" by blast
  show ?thesis using g1 s1 c1 g2 s2 c2 g3 s3 c3 g4 s4 c4 g5 s5 by simp
qed

theorem converters_stay_in_basis_witness:
  "names_ok sample_names \<and>
   well_formed sample_names (Unary ''~'' (Binary ''<->'' (Leaf ''x'') (Leaf ''F''))) \<and>
   (\<exists>g. to_implies_false sample_names (Unary ''~'' (Binary ''<->'' (Leaf ''x'') (Leaf ''F'')))
          = Inr g \<and>
        well_formed sample_names g \<and> operators sample_names g \<subseteq> {''->'', ''F''})"
proof -
  let ?f = "Unary ''~'' (Binary ''<->'' (Leaf ''x'') (Leaf ''F''))"
  have h1: "names_ok sample_names" by (rule sample_names_ok)
  have h2: "well_formed sample_names ?f"
    by (simp add: sample_names_def is_binary_iff is_unary_def is_constant_def)
  from converters_stay_in_basis[OF h1 h2] h1 h2 show ?thesis by blast
qed

text \<open>
  Claim C3.  The equations of \<open>to_not_and_or\<close>, where \<open>first'\<close> and \<open>second'\<close> are the
  converted operands: a variable is returned as it is; \<open>T\<close> becomes \<open>p|~p\<close> and \<open>F\<close>
  becomes \<open>p&~p\<close>; \<open>~a\<close> becomes \<open>~first'\<close>; \<open>&\<close> and \<open>|\<close> are rebuilt; \<open>a->b\<close> becomes
  \<open>~first'|second'\<close>; \<open>a+b\<close> becomes \<open>(first'&~second')|(~first'&second')\<close>; \<open>a<->b\<close>
  becomes \<open>(first'&second')|(~first'&~second')\<close>; \<open>a-&b\<close> becomes \<open>~(first'&second')\<close>
  and \<open>a-|b\<close> becomes \<open>~(first'|second')\<close>.
\<close>

theorem to_not_and_or_equations:
  assumes "names_ok isv"
    and "to_not_and_or isv a = Inr first'" and "to_not_and_or isv b = Inr second'"
  shows "(\<forall>x. isv x \<longrightarrow> to_not_and_or isv (Leaf x) = Inr (Leaf x)) \<and>
         to_not_and_or isv (Leaf ''T'') =
           Inr (Binary ''|'' (Leaf ''p'') (Unary ''~'' (Leaf ''p''))) \<and>
         to_not_and_or isv (Leaf ''F'') =
           Inr (Binary ''&'' (Leaf ''p'') (Unary ''~'' (Leaf ''p''))) \<and>
         to_not_and_or isv (Unary ''~'' a) = Inr (Unary ''~'' first') \<and>
         to_not_and_or isv (Binary ''&'' a b) = Inr (Binary ''&'' first' second') \<and>
         to_not_and_or isv (Binary ''|'' a b) = Inr (Binary ''|'' first' second') \<and>
         to_not_and_or isv (Binary ''->'' a b) =
           Inr (Binary ''|'' (Unary ''~'' first') second') \<and>
         to_not_and_or isv (Binary ''+'' a b) =
           Inr (Binary ''|'' (Binary ''&'' first' (Unary ''~'' second'))
                            (Binary ''&'' (Unary ''~'' first') second')) \<and>
         to_not_and_or isv (Binary ''<->'' a b) =
           Inr (Binary ''|'' (Binary ''&'' first' second')
                            (Binary ''&'' (Unary ''~'' first') (Unary ''~'' second'))) \<and>
         to_not_and_or isv (Binary ''-&'' a b) = Inr (Unary ''~'' (Binary ''&'' first' second')) \<and>
         to_not_and_or isv (Binary ''-|'' a b) = Inr (Unary ''~'' (Binary ''|'' first' second'))"
  using nao_Leaf[OF assms(1)] nao_Unary[OF assms(1,2)] nao_Binary[OF assms] by simp

theorem to_not_and_or_equations_witness:
  "names_ok sample_names \<and>
   to_not_and_or sample_names (Leaf ''x'') = Inr (Leaf ''x'') \<and>
   to_not_and_or sample_names (Leaf ''y'') = Inr (Leaf ''y'') \<and>
   sample_names ''z'' \<and> to_not_and_or sample_names (Leaf ''z'') = Inr (Leaf ''z'') \<and>
   to_not_and_or sample_names (Binary ''+'' (Leaf ''x'') (Leaf ''y'')) =
     Inr (Binary ''|'' (Binary ''&'' (Leaf ''x'') (Unary ''~'' (Leaf ''y'')))
                      (Binary ''&'' (Unary ''~'' (Leaf ''x'')) (Leaf ''y'')))"
proof -
  have h1: "names_ok sample_names" by (rule sample_names_ok)
  have h2: "to_not_and_or sample_names (Leaf ''x'') = Inr (Leaf ''x'')"
    by (simp add: to_not_and_or.simps sample_names_def)
  have h3: "to_not_and_or sample_names (Leaf ''y'') = Inr (Leaf ''y'')"
    by (simp add: to_not_and_or.simps sample_names_def)
  have h4: "sample_names ''z''" by (simp add: sample_names_def)
  from to_not_and_or_equations[OF h1 h2 h3] h1 h2 h3 h4 show ?thesis by blast
qed

text \<open>
  Claim C4.  The equations of \<open>to_implies_not\<close>, where \<open>first'\<close> and \<open>second'\<close> are the
  converted operands: a variable is returned as it is; \<open>T\<close> becomes \<open>p->p\<close> and \<open>F\<close>
  becomes \<open>~(p->p)\<close>; \<open>~a\<close> becomes \<open>~first'\<close>; \<open>->\<close> is rebuilt; \<open>a|b\<close> becomes
  \<open>~first'->second'\<close>; \<open>a&b\<close> becomes \<open>~(first'->~second')\<close>; \<open>a+b\<close> becomes
  \<open>(first'->second')->~(second'->first')\<close>; \<open>a<->b\<close> becomes the negation of that;
  \<open>a-&b\<close> becomes \<open>first'->~second'\<close> and \<open>a-|b\<close> becomes \<open>~(~first'->second')\<close>.
\<close>

theorem to_implies_not_equations:
  assumes "names_ok isv"
    and "to_implies_not isv a = Inr first'" and "to_implies_not isv b = Inr second'"
  shows "(\<forall>x. isv x \<longrightarrow> to_implies_not isv (Leaf x) = Inr (Leaf x)) \<and>
         to_implies_not isv (Leaf ''T'') = Inr (Binary ''->'' (Leaf ''p'') (Leaf ''p'')) \<and>
         to_implies_not isv (Leaf ''F'') =
           Inr (Unary ''~'' (Binary ''->'' (Leaf ''p'') (Leaf ''p''))) \<and>
         to_implies_not isv (Unary ''~'' a) = Inr (Unary ''~'' first') \<and>
         to_implies_not isv (Binary ''->'' a b) = Inr (Binary ''->'' first' second') \<and>
         to_implies_not isv (Binary ''|'' a b) =
           Inr (Binary ''->'' (Unary ''~'' first') second') \<and>
         to_implies_not isv (Binary ''&'' a b) =
           Inr (Unary ''~'' (Binary ''->'' first' (Unary ''~'' second'))) \<and>
         to_implies_not isv (Binary ''+'' a b) =
           Inr (Binary ''->'' (Binary ''->'' first' second')
                             (Unary ''~'' (Binary ''->'' second' first'))) \<and>
         to_implies_not isv (Binary ''<->'' a b) =
           Inr (Unary ''~'' (Binary ''->'' (Binary ''->'' first' second')
                                          (Unary ''~'' (Binary ''->'' second' first')))) \<and>
         to_implies_not isv (Binary ''-&'' a b) =
           Inr (Binary ''->'' first' (Unary ''~'' second')) \<and>
         to_implies_not isv (Binary ''-|'' a b) =
           Inr (Unary ''~'' (Binary ''->'' (Unary ''~'' first') second'))"
  using tin_Leaf[OF assms(1)] tin_Unary[OF assms(1,2)] tin_Binary[OF assms] by simp

theorem to_implies_not_equations_witness:
  "names_ok sample_names \<and>
   to_implies_not sample_names (Leaf ''x'') = Inr (Leaf ''x'') \<and>
   to_implies_not sample_names (Leaf ''y'') = Inr (Leaf ''y'') \<and>
   sample_names ''z'' \<and> to_implies_not sample_names (Leaf ''z'') = Inr (Leaf ''z'') \<and>
   to_implies_not sample_names (Binary ''+'' (Leaf ''x'') (Leaf ''y'')) =
     Inr (Binary ''->'' (Binary ''->'' (Leaf ''x'') (Leaf ''y''))
                       (Unary ''~'' (Binary ''->'' (Leaf ''y'') (Leaf ''x''))))"
proof -
  have h1: "names_ok sample_names" by (rule sample_names_ok)
  have h2: "to_implies_not sample_names (Leaf ''x'') = Inr (Leaf ''x'')"
    by (simp add: to_implies_not.simps sample_names_def)
  have h3: "to_implies_not sample_names (Leaf ''y'') = Inr (Leaf ''y'')"
    by (simp add: to_implies_not.simps sample_names_def)
  have h4: "sample_names ''z''" by (simp add: sample_names_def)
  from to_implies_not_equations[OF h1 h2 h3] h1 h2 h3 h4 show ?thesis by blast
qed

text \<open>
  Claim C5.  The equations of \<open>to_not_and\<close>, where \<open>first'\<close> and \<open>second'\<close> are the
  converted operands: \<open>F\<close> becomes \<open>p&~p\<close> and \<open>T\<close> becomes \<open>~(p&~p)\<close>; \<open>a|b\<close> becomes
  \<open>~(~first'&~second')\<close>; \<open>a->b\<close> becomes \<open>~(first'&~second')\<close> and \<open>a+b\<close> becomes
  \<open>~(~(first'&~second')&~(~first'&second'))\<close>, both built from \<open>~\<close> and \<open>&\<close> alone;
  \<open>a<->b\<close> is the negation of what \<open>to_not_and\<close> returns for the formula \<open>a+b\<close> over the
  original operands; \<open>a-&b\<close> becomes \<open>~(first'&second')\<close>; \<open>a-|b\<close> becomes
  \<open>~first'&~second'\<close>.  No result on a well-formed formula has a \<open>|\<close> node.
\<close>

theorem to_not_and_equations:
  assumes "names_ok isv"
    and "to_not_and isv a = Inr first'" and "to_not_and isv b = Inr second'"
  shows "(\<forall>x. isv x \<longrightarrow> to_not_and isv (Leaf x) = Inr (Leaf x)) \<and>
         to_not_and isv (Leaf ''F'') =
           Inr (Binary ''&'' (Leaf ''p'') (Unary ''~'' (Leaf ''p''))) \<and>
         to_not_and isv (Leaf ''T'') =
           Inr (Unary ''~'' (Binary ''&'' (Leaf ''p'') (Unary ''~'' (Leaf ''p'')))) \<and>
         to_not_and isv (Unary ''~'' a) = Inr (Unary ''~'' first') \<and>
         to_not_and isv (Binary ''&'' a b) = Inr (Binary ''&'' first' second') \<and>
         to_not_and isv (Binary ''|'' a b) =
           Inr (Unary ''~'' (Binary ''&'' (Unary ''~'' first') (Unary ''~'' second'))) \<and>
         to_not_and isv (Binary ''->'' a b) =
           Inr (Unary ''~'' (Binary ''&'' first' (Unary ''~'' second'))) \<and>
         to_not_and isv (Binary ''+'' a b) =
           Inr (Unary ''~''
                 (Binary ''&'' (Unary ''~'' (Binary ''&'' first' (Unary ''~'' second')))
                              (Unary ''~'' (Binary ''&'' (Unary ''~'' first') second')))) \<and>
         (\<exists>x. to_not_and isv (Binary ''+'' a b) = Inr x \<and>
              to_not_and isv (Binary ''<->'' a b) = Inr (Unary ''~'' x)) \<and>
         to_not_and isv (Binary ''-&'' a b) = Inr (Unary ''~'' (Binary ''&'' first' second')) \<and>
         to_not_and isv (Binary ''-|'' a b) =
           Inr (Binary ''&'' (Unary ''~'' first') (Unary ''~'' second')) \<and>
         (\<forall>f g. well_formed isv f \<longrightarrow> to_not_and isv f = Inr g \<longrightarrow> ''|'' \<notin> operators isv g)"
proof -
  have "\<forall>f g. well_formed isv f \<longrightarrow> to_not_and isv f = Inr g \<longrightarrow> ''|'' \<notin> operators isv g"
    using na_shape[OF assms(1)] by fastforce
  then show ?thesis
    using na_Leaf[OF assms(1)] na_Unary[OF assms(1,2)] na_Binary[OF assms] by simp
qed

theorem to_not_and_equations_witness:
  "names_ok sample_names \<and>
   to_not_and sample_names (Leaf ''x'') = Inr (Leaf ''x'') \<and>
   to_not_and sample_names (Leaf ''y'') = Inr (Leaf ''y'') \<and>
   well_formed sample_names (Binary ''|'' (Leaf ''x'') (Leaf ''y'')) \<and>
   to_not_and sample_names (Binary ''|'' (Leaf ''x'') (Leaf ''y'')) =
     Inr (Unary ''~'' (Binary ''&'' (Unary ''~'' (Leaf ''x'')) (Unary ''~'' (Leaf ''y'')))) \<and>
   ''|'' \<notin> operators sample_names
     (Unary ''~'' (Binary ''&'' (Unary ''~'' (Leaf ''x'')) (Unary ''~'' (Leaf ''y''))))"
proof -
  have h1: "names_ok sample_names" by (rule sample_names_ok)
  have h2: "to_not_and sample_names (Leaf ''x'') = Inr (Leaf ''x'')"
    by (simp add: to_not_and.simps sample_names_def)
  have h3: "to_not_and sample_names (Leaf ''y'') = Inr (Leaf ''y'')"
    by (simp add: to_not_and.simps sample_names_def)
  have h4: "well_formed sample_names (Binary ''|'' (Leaf ''x'') (Leaf ''y''))"
    by (simp add: sample_names_def is_binary_iff)
  from to_not_and_equations[OF h1 h2 h3] h1 h2 h3 h4 show ?thesis by blast
qed

text \<open>
  Claim C6.  For every well-formed formula \<open>f\<close> and every assignment \<open>m\<close> that covers the
  variables of \<open>f\<close> and \<open>p\<close>: \<open>to_nand\<close> applied to the result of \<open>to_not_and\<close> returns a
  well-formed formula whose only operator is \<open>-&\<close>, with the truth value of \<open>f\<close>; and
  \<open>to_implies_false\<close> applied to the result of \<open>to_implies_not\<close> returns a well-formed
  formula over \<open>->\<close> and \<open>F\<close>, with the truth value of \<open>f\<close>.
\<close>

theorem chained_converters_consistent:
  assumes "names_ok isv" and "well_formed isv f" and "variables isv f \<union> {''p''} \<subseteq> dom m"
  shows "\<exists>v. evaluate isv m f = Some v \<and>
           (\<exists>h g. to_not_and isv f = Inr h \<and> to_nand isv h = Inr g \<and>
                  well_formed isv g \<and> operators isv g \<subseteq> {''-&''} \<and>
                  evaluate isv m g = Some v) \<and>
           (\<exists>h g. to_implies_not isv f = Inr h \<and> to_implies_false isv h = Inr g \<and>
                  well_formed isv g \<and> operators isv g \<subseteq> {''->'', ''F''} \<and>
                  evaluate isv m g = Some v)"
proof -
  from assms(3) have vars: "variables isv f \<subseteq> dom m" and p: "''p'' \<in> dom m" by simp_all
  from eval_defined[OF assms(1,2) vars] obtain v where v: "evaluate isv m f = Some v" ..
  have nand: "\<exists>h g. to_not_and isv f = Inr h \<and> to_nand isv h = Inr g \<and>
      well_formed isv g \<and> operators isv g \<subseteq> {''-&''} \<and> evaluate isv m g = Some v"
  proof -
    from na_total[OF assms(1,2)] obtain h where h: "to_not_and isv f = Inr h" ..
    from na_shape[OF assms(1,2) h] have wh: "well_formed isv h"
      and vh: "variables isv h \<subseteq> variables isv f \<union> {''p''}" by simp_all
    from vh assms(3) have cover: "variables isv h \<subseteq> dom m" by blast
    from to_nand_props[OF assms(1) wh] obtain g where g: "to_nand isv h = Inr g"
      "well_formed isv g" "operators isv g \<subseteq> {''-&''}"
      "\<forall>m. variables isv h \<subseteq> dom m \<longrightarrow> constant_free isv h \<or> ''p'' \<in> dom m \<longrightarrow>
           evaluate isv m g = evaluate isv m h"
      by blast
    from g(4) cover p have "evaluate isv m g = evaluate isv m h" by simp
    also have "\<dots> = Some v" using na_eval[OF assms(1,2) h vars] p v by simp
    finally show ?thesis using h g(1-3) by blast
  qed
  have implies: "\<exists>h g. to_implies_not isv f = Inr h \<and> to_implies_false isv h = Inr g \<and>
      well_formed isv g \<and> operators isv g \<subseteq> {''->'', ''F''} \<and> evaluate isv m g = Some v"
  proof -
    from tin_total[OF assms(1,2)] obtain h where h: "to_implies_not isv f = Inr h" ..
    from tin_shape[OF assms(1,2) h] have wh: "well_formed isv h"
      and vh: "variables isv h \<subseteq> variables isv f \<union> {''p''}" by simp_all
    from vh assms(3) have cover: "variables isv h \<subseteq> dom m" by blast
    from to_implies_false_props[OF assms(1) wh] obtain g where g: "to_implies_false isv h = Inr g"
      "well_formed isv g" "operators isv g \<subseteq> {''->'', ''F''}"
      "\<forall>m. variables isv h \<subseteq> dom m \<longrightarrow> constant_free isv h \<or> ''p'' \<in> dom m \<longrightarrow>
           evaluate isv m g = evaluate isv m h"
      by blast
    from g(4) cover p have "evaluate isv m g = evaluate isv m h" by simp
    also have "\<dots> = Some v" using tin_eval[OF assms(1,2) h vars] p v by simp
    finally show ?thesis using h g(1-3) by blast
  qed
  from v nand implies show ?thesis by blast
qed

theorem chained_converters_consistent_witness:
  "names_ok sample_names \<and>
   well_formed sample_names (Binary ''|'' (Leaf ''x'') (Leaf ''T'')) \<and>
   variables sample_names (Binary ''|'' (Leaf ''x'') (Leaf ''T'')) \<union> {''p''}
     \<subseteq> dom [''x'' \<mapsto> False, ''p'' \<mapsto> True] \<and>
   (\<exists>v. evaluate sample_names [''x'' \<mapsto> False, ''p'' \<mapsto> True]
          (Binary ''|'' (Leaf ''x'') (Leaf ''T'')) = Some v \<and>
      (\<exists>h g. to_not_and sample_names (Binary ''|'' (Leaf ''x'') (Leaf ''T'')) = Inr h \<and>
             to_nand sample_names h = Inr g \<and> operators sample_names g \<subseteq> {''-&''} \<and>
             evaluate sample_names [''x'' \<mapsto> False, ''p'' \<mapsto> True] g = Some v))"
proof -
  let ?f = "Binary ''|'' (Leaf ''x'') (Leaf ''T'')"
  let ?m = "[''x'' \<mapsto> False, ''p'' \<mapsto> True]"
  have h1: "names_ok sample_names" by (rule sample_names_ok)
  have h2: "well_formed sample_names ?f"
    by (simp add: sample_names_def is_binary_iff is_constant_def)
  have h3: "variables sample_names ?f \<union> {''p''} \<subseteq> dom ?m"
    by (simp add: sample_names_def)
  from chained_converters_consistent[OF h1 h2 h3] h1 h2 h3 show ?thesis by blast
qed

text \<open>
  Claim C7.  On a formula whose nodes all come from the grammar, each of the five
  converters returns a formula: neither the \<open>Unknown operator\<close> error nor any other
  error is raised.
\<close>

theorem converters_never_raise:
  assumes "names_ok isv" and "well_formed isv f"
  shows "(\<exists>g. to_not_and_or isv f = Inr g) \<and>
         (\<exists>g. to_not_and isv f = Inr g) \<and>
         (\<exists>g. to_nand isv f = Inr g) \<and>
         (\<exists>g. to_implies_not isv f = Inr g) \<and>
         (\<exists>g. to_implies_false isv f = Inr g)"
  using nao_total[OF assms] na_total[OF assms] tin_total[OF assms]
    to_nand_props[OF assms] to_implies_false_props[OF assms]
  by blast

theorem converters_never_raise_witness:
  "names_ok sample_names \<and>
   well_formed sample_names (Binary ''-|'' (Leaf ''F'') (Unary ''~'' (Leaf ''q''))) \<and>
   (\<exists>g. to_not_and_or sample_names (Binary ''-|'' (Leaf ''F'') (Unary ''~'' (Leaf ''q'')))
          = Inr g) \<and>
   (\<exists>g. to_implies_false sample_names (Binary ''-|'' (Leaf ''F'') (Unary ''~'' (Leaf ''q'')))
          = Inr g)"
proof -
  let ?f = "Binary ''-|'' (Leaf ''F'') (Unary ''~'' (Leaf ''q''))"
  have h1: "names_ok sample_names" by (rule sample_names_ok)
  have h2: "well_formed sample_names ?f"
    by (simp add: sample_names_def is_binary_iff is_unary_def is_constant_def)
  from converters_never_raise[OF h1 h2] h1 h2 show ?thesis by blast
qed

text \<open>
  Claim C8.  If a well-formed formula \<open>f\<close> has no constant and only operators of a
  converter's basis, then the converter returns a formula with the truth value of \<open>f\<close>
  under every assignment that covers the variables of \<open>f\<close>.  On a formula that is a
  single variable, each of the five converters returns that variable.
\<close>

theorem legal_formula_preserved:
  assumes "names_ok isv" and "well_formed isv f" and "variables isv f \<subseteq> dom m"
  shows "(\<exists>v. evaluate isv m f = Some v \<and>
            (operators isv f \<subseteq> {''~'', ''&'', ''|''} \<longrightarrow>
               (\<exists>g. to_not_and_or isv f = Inr g \<and> evaluate isv m g = Some v)) \<and>
            (operators isv f \<subseteq> {''~'', ''&''} \<longrightarrow>
               (\<exists>g. to_not_and isv f = Inr g \<and> evaluate isv m g = Some v)) \<and>
            (operators isv f \<subseteq> {''-&''} \<longrightarrow>
               (\<exists>g. to_nand isv f = Inr g \<and> evaluate isv m g = Some v)) \<and>
            (operators isv f \<subseteq> {''->'', ''~''} \<longrightarrow>
               (\<exists>g. to_implies_not isv f = Inr g \<and> evaluate isv m g = Some v)) \<and>
            (operators isv f \<subseteq> {''->''} \<longrightarrow>
               (\<exists>g. to_implies_false isv f = Inr g \<and> evaluate isv m g = Some v))) \<and>
         (\<forall>x. isv x \<longrightarrow>
            to_not_and_or isv (Leaf x) = Inr (Leaf x) \<and>
            to_not_and isv (Leaf x) = Inr (Leaf x) \<and>
            to_nand isv (Leaf x) = Inr (Leaf x) \<and>
            to_implies_not isv (Leaf x) = Inr (Leaf x) \<and>
            to_implies_false isv (Leaf x) = Inr (Leaf x))"
proof -
  note ok = assms(1) and wf = assms(2) and vars = assms(3)
  from eval_defined[OF ok wf vars] obtain v where v: "evaluate isv m f = Some v" ..
  have c1: "\<exists>g. to_not_and_or isv f = Inr g \<and> evaluate isv m g = Some v"
    if b: "operators isv f \<subseteq> {''~'', ''&'', ''|''}"
  proof -
    from basis_constant_free[OF wf b] have cf: "constant_free isv f" by simp
    from nao_total[OF ok wf] obtain g where g: "to_not_and_or isv f = Inr g" ..
    from nao_eval[OF ok wf g vars] cf v g show ?thesis by simp
  qed
  have c2: "\<exists>g. to_not_and isv f = Inr g \<and> evaluate isv m g = Some v"
    if b: "operators isv f \<subseteq> {''~'', ''&''}"
  proof -
    from basis_constant_free[OF wf b] have cf: "constant_free isv f" by simp
    from na_total[OF ok wf] obtain g where g: "to_not_and isv f = Inr g" ..
    from na_eval[OF ok wf g vars] cf v g show ?thesis by simp
  qed
  have c3: "\<exists>g. to_nand isv f = Inr g \<and> evaluate isv m g = Some v"
    if b: "operators isv f \<subseteq> {''-&''}"
  proof -
    from basis_constant_free[OF wf b] have cf: "constant_free isv f" by simp
    from to_nand_props[OF ok wf] obtain g where g: "to_nand isv f = Inr g"
      "\<forall>m. variables isv f \<subseteq> dom m \<longrightarrow> constant_free isv f \<or> ''p'' \<in> dom m \<longrightarrow>
           evaluate isv m g = evaluate isv m f"
      by blast
    from g(2) vars cf v have "evaluate isv m g = Some v" by simp
    with g(1) show ?thesis by simp
  qed
  have c4: "\<exists>g. to_implies_not isv f = Inr g \<and> evaluate isv m g = Some v"
    if b: "operators isv f \<subseteq> {''->'', ''~''}"
  proof -
    from basis_constant_free[OF wf b] have cf: "constant_free isv f" by simp
    from tin_total[OF ok wf] obtain g where g: "to_implies_not isv f = Inr g" ..
    from tin_eval[OF ok wf g vars] cf v g show ?thesis by simp
  qed
  have c5: "\<exists>g. to_implies_false isv f = Inr g \<and> evaluate isv m g = Some v"
    if b: "operators isv f \<subseteq> {''->''}"
  proof -
    from basis_constant_free[OF wf b] have cf: "constant_free isv f" by simp
    from to_implies_false_props[OF ok wf] obtain g where g: "to_implies_false isv f = Inr g"
      "\<forall>m. variables isv f \<subseteq> dom m \<longrightarrow> constant_free isv f \<or> ''p'' \<in> dom m \<longrightarrow>
           evaluate isv m g = evaluate isv m f"
      by blast
    from g(2) vars cf v have "evaluate isv m g = Some v" by simp
    with g(1) show ?thesis by simp
  qed
  have leaf: "to_not_and_or isv (Leaf x) = Inr (Leaf x) \<and>
      to_not_and isv (Leaf x) = Inr (Leaf x) \<and>
      to_nand isv (Leaf x) = Inr (Leaf x) \<and>
      to_implies_not isv (Leaf x) = Inr (Leaf x) \<and>
      to_implies_false isv (Leaf x) = Inr (Leaf x)" if "isv x" for x
    using that nao_Leaf(1)[OF ok that] na_Leaf(1)[OF ok that] tin_Leaf(1)[OF ok that]
    by (simp add: to_nand_def to_implies_false_def)
  from v c1 c2 c3 c4 c5 leaf show ?thesis by blast
qed

theorem legal_formula_preserved_witness:
  "names_ok sample_names \<and>
   well_formed sample_names (Binary ''-&'' (Leaf ''x'') (Leaf ''y'')) \<and>
   variables sample_names (Binary ''-&'' (Leaf ''x'') (Leaf ''y''))
     \<subseteq> dom [''x'' \<mapsto> True, ''y'' \<mapsto> True] \<and>
   operators sample_names (Binary ''-&'' (Leaf ''x'') (Leaf ''y'')) \<subseteq> {''-&''} \<and>
   (\<exists>v g. evaluate sample_names [''x'' \<mapsto> True, ''y'' \<mapsto> True]
            (Binary ''-&'' (Leaf ''x'') (Leaf ''y'')) = Some v \<and>
          to_nand sample_names (Binary ''-&'' (Leaf ''x'') (Leaf ''y'')) = Inr g \<and>
          evaluate sample_names [''x'' \<mapsto> True, ''y'' \<mapsto> True] g = Some v) \<and>
   well_formed sample_names (Binary ''->'' (Leaf ''x'') (Leaf ''y'')) \<and>
   variables sample_names (Binary ''->'' (Leaf ''x'') (Leaf ''y''))
     \<subseteq> dom [''x'' \<mapsto> True, ''y'' \<mapsto> True] \<and>
   operators sample_names (Binary ''->'' (Leaf ''x'') (Leaf ''y'')) \<subseteq> {''->''} \<and>
   (\<exists>v g. evaluate sample_names [''x'' \<mapsto> True, ''y'' \<mapsto> True]
            (Binary ''->'' (Leaf ''x'') (Leaf ''y'')) = Some v \<and>
          to_implies_false sample_names (Binary ''->'' (Leaf ''x'') (Leaf ''y'')) = Inr g \<and>
          evaluate sample_names [''x'' \<mapsto> True, ''y'' \<mapsto> True] g = Some v) \<and>
   sample_names ''z'' \<and>
   to_implies_false sample_names (Leaf ''z'') = Inr (Leaf ''z'')"
proof -
  let ?f = "Binary ''-&'' (Leaf ''x'') (Leaf ''y'')"
  let ?f' = "Binary ''->'' (Leaf ''x'') (Leaf ''y'')"
  let ?m = "[''x'' \<mapsto> True, ''y'' \<mapsto> True]"
  have h1: "names_ok sample_names" by (rule sample_names_ok)
  have h2: "well_formed sample_names ?f"
    by (simp add: sample_names_def is_binary_iff)
  have h3: "variables sample_names ?f \<subseteq> dom ?m"
    by (simp add: sample_names_def)
  have h4: "operators sample_names ?f \<subseteq> {''-&''}"
    by (simp add: sample_names_def)
  have h5: "sample_names ''z''" by (simp add: sample_names_def)
  have k2: "well_formed sample_names ?f'"
    by (simp add: sample_names_def is_binary_iff)
  have k3: "variables sample_names ?f' \<subseteq> dom ?m"
    by (simp add: sample_names_def)
  have k4: "operators sample_names ?f' \<subseteq> {''->''}"
    by (simp add: sample_names_def)
  from legal_formula_preserved[OF h1 h2 h3] h4
  have a: "\<exists>v g. evaluate sample_names ?m ?f = Some v \<and>
      to_nand sample_names ?f = Inr g \<and> evaluate sample_names ?m g = Some v"
    by blast
  from legal_formula_preserved[OF h1 k2 k3] k4
  have b: "\<exists>v g. evaluate sample_names ?m ?f' = Some v \<and>
      to_implies_false sample_names ?f' = Inr g \<and> evaluate sample_names ?m g = Some v"
    by blast
  from legal_formula_preserved[OF h1 h2 h3] h5
  have c: "to_implies_false sample_names (Leaf ''z'') = Inr (Leaf ''z'')"
    by blast
  from h1 h2 h3 h4 a k2 k3 k4 b h5 c show ?thesis by (intro conjI)
qed
text \<open>
  Claim C9.  \<open>to_not_and_or\<close>, \<open>to_not_and\<close> and \<open>to_implies_not\<close> return a well-formed
  formula \<open>f\<close> as it is when \<open>f\<close> has no constant and only operators of their own basis;
  and on every well-formed formula \<open>g\<close>, converting the result once more returns the
  result itself.
\<close>

theorem base_converters_identity_idempotent:
  assumes "names_ok isv" and "well_formed isv f" and "well_formed isv g"
  shows "(operators isv f \<subseteq> {''~'', ''&'', ''|''} \<longrightarrow> to_not_and_or isv f = Inr f) \<and>
         (operators isv f \<subseteq> {''~'', ''&''} \<longrightarrow> to_not_and isv f = Inr f) \<and>
         (operators isv f \<subseteq> {''->'', ''~''} \<longrightarrow> to_implies_not isv f = Inr f) \<and>
         (\<exists>h. to_not_and_or isv g = Inr h \<and> to_not_and_or isv h = Inr h) \<and>
         (\<exists>h. to_not_and isv g = Inr h \<and> to_not_and isv h = Inr h) \<and>
         (\<exists>h. to_implies_not isv g = Inr h \<and> to_implies_not isv h = Inr h)"
proof -
  note ok = assms(1)
  have "\<exists>h. to_not_and_or isv g = Inr h \<and> to_not_and_or isv h = Inr h"
  proof -
    from nao_total[OF ok assms(3)] obtain h where h: "to_not_and_or isv g = Inr h" ..
    from nao_shape[OF ok assms(3) h] have "well_formed isv h"
      "operators isv h \<subseteq> {''~'', ''&'', ''|''}" by simp_all
    from nao_id[OF ok this] h show ?thesis by simp
  qed
  moreover have "\<exists>h. to_not_and isv g = Inr h \<and> to_not_and isv h = Inr h"
  proof -
    from na_total[OF ok assms(3)] obtain h where h: "to_not_and isv g = Inr h" ..
    from na_shape[OF ok assms(3) h] have "well_formed isv h"
      "operators isv h \<subseteq> {''~'', ''&''}" by simp_all
    from na_id[OF ok this] h show ?thesis by simp
  qed
  moreover have "\<exists>h. to_implies_not isv g = Inr h \<and> to_implies_not isv h = Inr h"
  proof -
    from tin_total[OF ok assms(3)] obtain h where h: "to_implies_not isv g = Inr h" ..
    from tin_shape[OF ok assms(3) h] have "well_formed isv h"
      "operators isv h \<subseteq> {''->'', ''~''}" by simp_all
    from tin_id[OF ok this] h show ?thesis by simp
  qed
  ultimately show ?thesis
    using nao_id[OF ok assms(2)] na_id[OF ok assms(2)] tin_id[OF ok assms(2)] by simp
qed

theorem base_converters_identity_idempotent_witness:
  "names_ok sample_names \<and>
   well_formed sample_names (Unary ''~'' (Leaf ''x'')) \<and>
   well_formed sample_names (Binary ''<->'' (Leaf ''T'') (Leaf ''y'')) \<and>
   operators sample_names (Unary ''~'' (Leaf ''x'')) \<subseteq> {''~'', ''&'', ''|''} \<and>
   operators sample_names (Unary ''~'' (Leaf ''x'')) \<subseteq> {''~'', ''&''} \<and>
   operators sample_names (Unary ''~'' (Leaf ''x'')) \<subseteq> {''->'', ''~''} \<and>
   to_not_and_or sample_names (Unary ''~'' (Leaf ''x'')) = Inr (Unary ''~'' (Leaf ''x'')) \<and>
   to_not_and sample_names (Unary ''~'' (Leaf ''x'')) = Inr (Unary ''~'' (Leaf ''x'')) \<and>
   to_implies_not sample_names (Unary ''~'' (Leaf ''x'')) = Inr (Unary ''~'' (Leaf ''x'')) \<and>
   (\<exists>h. to_not_and sample_names (Binary ''<->'' (Leaf ''T'') (Leaf ''y'')) = Inr h \<and>
        to_not_and sample_names h = Inr h)"
proof -
  let ?f = "Unary ''~'' (Leaf ''x'')"
  let ?g = "Binary ''<->'' (Leaf ''T'') (Leaf ''y'')"
  have h1: "names_ok sample_names" by (rule sample_names_ok)
  have h2: "well_formed sample_names ?f"
    by (simp add: sample_names_def is_unary_def)
  have h3: "well_formed sample_names ?g"
    by (simp add: sample_names_def is_binary_iff is_constant_def)
  have h4: "operators sample_names ?f \<subseteq> {''~'', ''&'', ''|''}"
    "operators sample_names ?f \<subseteq> {''~'', ''&''}"
    "operators sample_names ?f \<subseteq> {''->'', ''~''}"
    by (simp_all add: sample_names_def)
  from base_converters_identity_idempotent[OF h1 h2 h3] h1 h2 h3 h4 show ?thesis by blast
qed

text \<open>
  Claim C10.  For every well-formed formula \<open>f\<close> and each of the five converters, every
  variable of the result is a variable of \<open>f\<close> or the helper variable \<open>p\<close>; and when
  \<open>f\<close> has no constant, every variable of the result is a variable of \<open>f\<close>.
\<close>

theorem converters_variables:
  assumes "names_ok isv" and "well_formed isv f"
  shows "(\<exists>g. to_not_and_or isv f = Inr g \<and>
              variables isv g \<subseteq> variables isv f \<union> {''p''} \<and>
              (constant_free isv f \<longrightarrow> variables isv g \<subseteq> variables isv f)) \<and>
         (\<exists>g. to_not_and isv f = Inr g \<and>
              variables isv g \<subseteq> variables isv f \<union> {''p''} \<and>
              (constant_free isv f \<longrightarrow> variables isv g \<subseteq> variables isv f)) \<and>
         (\<exists>g. to_nand isv f = Inr g \<and>
              variables isv g \<subseteq> variables isv f \<union> {''p''} \<and>
              (constant_free isv f \<longrightarrow> variables isv g \<subseteq> variables isv f)) \<and>
         (\<exists>g. to_implies_not isv f = Inr g \<and>
              variables isv g \<subseteq> variables isv f \<union> {''p''} \<and>
              (constant_free isv f \<longrightarrow> variables isv g \<subseteq> variables isv f)) \<and>
         (\<exists>g. to_implies_false isv f = Inr g \<and>
              variables isv g \<subseteq> variables isv f \<union> {''p''} \<and>
              (constant_free isv f \<longrightarrow> variables isv g \<subseteq> variables isv f))"
proof -
  from nao_total[OF assms] obtain g1 where g1: "to_not_and_or isv f = Inr g1" ..
  from nao_shape[OF assms g1] g1
  have c1: "\<exists>g. to_not_and_or isv f = Inr g \<and>
      variables isv g \<subseteq> variables isv f \<union> {''p''} \<and>
      (constant_free isv f \<longrightarrow> variables isv g \<subseteq> variables isv f)"
    by simp
  from na_total[OF assms] obtain g2 where g2: "to_not_and isv f = Inr g2" ..
  from na_shape[OF assms g2] g2
  have c2: "\<exists>g. to_not_and isv f = Inr g \<and>
      variables isv g \<subseteq> variables isv f \<union> {''p''} \<and>
      (constant_free isv f \<longrightarrow> variables isv g \<subseteq> variables isv f)"
    by simp
  from to_nand_props[OF assms] obtain g3 where g3: "to_nand isv f = Inr g3"
    "variables isv g3 \<subseteq> variables isv f \<union> {''p''}"
    "constant_free isv f \<longrightarrow> variables isv g3 \<subseteq> variables isv f"
    by (elim exE conjE)
  then have c3: "\<exists>g. to_nand isv f = Inr g \<and>
      variables isv g \<subseteq> variables isv f \<union> {''p''} \<and>
      (constant_free isv f \<longrightarrow> variables isv g \<subseteq> variables isv f)"
    by simp
  from tin_total[OF assms] obtain g4 where g4: "to_implies_not isv f = Inr g4" ..
  from tin_shape[OF assms g4] g4
  have c4: "\<exists>g. to_implies_not isv f = Inr g \<and>
      variables isv g \<subseteq> variables isv f \<union> {''p''} \<and>
      (constant_free isv f \<longrightarrow> variables isv g \<subseteq> variables isv f)"
    by simp
  from to_implies_false_props[OF assms] obtain g5 where g5: "to_implies_false isv f = Inr g5"
    "variables isv g5 \<subseteq> variables isv f \<union> {''p''}"
    "constant_free isv f \<longrightarrow> variables isv g5 \<subseteq> variables isv f"
    by (elim exE conjE)
  then have c5: "\<exists>g. to_implies_false isv f = Inr g \<and>
      variables isv g \<subseteq> variables isv f \<union> {''p''} \<and>
      (constant_free isv f \<longrightarrow> variables isv g \<subseteq> variables isv f)"
    by simp
  from c1 c2 c3 c4 c5 show ?thesis by (intro conjI)
qed

theorem converters_variables_witness:
  "names_ok sample_names \<and>
   well_formed sample_names (Binary ''+'' (Leaf ''x'') (Leaf ''y'')) \<and>
   constant_free sample_names (Binary ''+'' (Leaf ''x'') (Leaf ''y'')) \<and>
   (\<exists>g. to_nand sample_names (Binary ''+'' (Leaf ''x'') (Leaf ''y'')) = Inr g \<and>
        variables sample_names g
          \<subseteq> variables sample_names (Binary ''+'' (Leaf ''x'') (Leaf ''y'')))"
proof -
  let ?f = "Binary ''+'' (Leaf ''x'') (Leaf ''y'')"
  have h1: "names_ok sample_names" by (rule sample_names_ok)
  have h2: "well_formed sample_names ?f"
    by (simp add: sample_names_def is_binary_iff)
  have h3: "constant_free sample_names ?f"
    by (simp add: sample_names_def)
  from converters_variables[OF h1 h2] h1 h2 h3 show ?thesis by blast
qed

end
